theory Spec2Isabelle
  imports Complex_Main "HOL-Library.Sublist" "HOL-Library.AList"
begin

section \<open>The HumanEval instruction-evaluation script\<close>

text \<open>
  A shallow embedding of \<^verbatim>\<open>Evaluation/HumanEval/eval_instruct_vllm.py\<close>: the prompt
  builder \<^verbatim>\<open>build_deepseekcoder_instruction\<close>, the two flows \<^verbatim>\<open>generate_main\<close> and
  \<^verbatim>\<open>evaluation_only\<close>, and the entry point.

  Conventions of the model.
  \<^item> A Python \<^verbatim>\<open>str\<close> is a \<open>string\<close>; a character is a code point below 256.
  \<^item> An exception is a value of \<open>exn\<close>; a computation that can raise returns
    \<open>exn + 'a\<close>, with \<open>Inl\<close> for the exception.
  \<^item> The process state (files, directories, how paths resolve, environment, seed) and the sequence of
    calls the script makes to the operating system and to its libraries are a record
    \<open>world\<close>; a statement of the script is a function from the world to a result and
    the world after it. An exception keeps the effects made before it.
  \<^item> The libraries the script calls (tokenizer, inference engine, JSON codec, the
    code extractor and language table of \<^verbatim>\<open>utils.utils\<close>, the correctness evaluator)
    are parameters, gathered in the record \<open>externals\<close>.
  \<^item> Console output (\<^verbatim>\<open>print\<close>, the \<^verbatim>\<open>tqdm\<close> progress bars) is not modelled.
\<close>

subsection \<open>Exceptions\<close>

datatype exn =
    AssertionError string
  | FileNotFoundError string
  | FileExistsError string
  | IsADirectoryError string
  | NotADirectoryError string
  | KeyError string
  | IndexError
  | TypeError
  | AttributeError
  | ValueError
  | LibraryError string

subsection \<open>Strings\<close>

text \<open>
  \<^verbatim>\<open>str.isspace\<close> on one character, for code points below 256: the ASCII controls
  9 to 13 and 28 to 31, the space, NEL (133) and the no-break space (160).
\<close>

definition isspace :: "char \<Rightarrow> bool" where
  "isspace c = (let n = (of_char c :: nat) in
     (9 \<le> n \<and> n \<le> 13) \<or> (28 \<le> n \<and> n \<le> 32) \<or> n = 133 \<or> n = 160)"

text \<open>\<^verbatim>\<open>str.strip()\<close>: leading and trailing whitespace removed.\<close>

definition strip :: "string \<Rightarrow> string" where
  "strip s = rev (dropWhile isspace (rev (dropWhile isspace s)))"

text \<open>
  \<^verbatim>\<open>str.lower()\<close>, for code points below 256: the letters A to Z and the accented
  capitals 192 to 222 (but the multiplication sign, 215) move up by 32.
\<close>

definition lower_char :: "char \<Rightarrow> char" where
  "lower_char c = (let n = (of_char c :: nat) in
     if (65 \<le> n \<and> n \<le> 90) \<or> (192 \<le> n \<and> n \<le> 214) \<or> (216 \<le> n \<and> n \<le> 222)
     then char_of (n + 32) else c)"

definition lower :: "string \<Rightarrow> string" where
  "lower s = map lower_char s"

text \<open>
  \<^verbatim>\<open>str.format\<close> with positional arguments, for the template syntax the script uses:
  literal text, the automatic field \<^verbatim>\<open>{}\<close> and the doubled braces. A field when the
  arguments have run out is an \<^verbatim>\<open>IndexError\<close>, a single brace a \<^verbatim>\<open>ValueError\<close>;
  arguments left over are ignored. Named and numbered fields are not covered (they are
  reported as \<^verbatim>\<open>ValueError\<close>); the script's template has none.
\<close>

fun format :: "string \<Rightarrow> string list \<Rightarrow> exn + string" where
  "format [] args = Inr []"
| "format (c # cs) args =
     (if c = CHR ''{'' then
        (case cs of
           [] \<Rightarrow> Inl ValueError
         | d # ds \<Rightarrow>
             if d = CHR ''}'' then
               (case args of
                  [] \<Rightarrow> Inl IndexError
                | a # as \<Rightarrow> map_sum id ((@) a) (format ds as))
             else if d = CHR ''{'' then map_sum id ((#) c) (format ds args)
             else Inl ValueError)
      else if c = CHR ''}'' then
        (case cs of
           [] \<Rightarrow> Inl ValueError
         | d # ds \<Rightarrow>
             if d = CHR ''}'' then map_sum id ((#) c) (format ds args)
             else Inl ValueError)
      else map_sum id ((#) c) (format cs args))"

text \<open>Python's \<^verbatim>\<open>needle in haystack\<close> on strings is \<^const>\<open>sublist\<close>.\<close>

subsection \<open>The prompt builder\<close>

text \<open>The triple-quoted literal of \<^verbatim>\<open>build_deepseekcoder_instruction\<close>, as written.\<close>

definition template :: string where
  "template = ''\<newline>Please continue to complete the function. You are not allowed to modify the given code and do the completion only. Please return all completed function in a codeblock. Here is the given code to do completion:\<newline>```{}\<newline>{}\<newline>```\<newline>''"

definition build_deepseekcoder_instruction :: "string \<Rightarrow> string \<Rightarrow> exn + string" where
  "build_deepseekcoder_instruction languge question =
     format (strip template) [lower languge, strip question]"

text \<open>The fixed instruction text that precedes the fenced block, and the fence.\<close>

definition instruction_text :: string where
  "instruction_text = ''Please continue to complete the function. You are not allowed to modify the given code and do the completion only. Please return all completed function in a codeblock. Here is the given code to do completion:\<newline>''"

definition fence :: string where
  "fence = ''```''"

subsection \<open>JSON values and dictionary access\<close>

text \<open>
  What \<^verbatim>\<open>json.loads\<close> returns. A dictionary is an association list in insertion
  order; a float is the finite double \<open>m * 2 ^ e\<close>, given by \<open>m\<close> and \<open>e\<close>.
\<close>

datatype json =
    JNull
  | JBool bool
  | JInt int
  | JFloat int int
  | JStr string
  | JList "json list"
  | JDict "(string \<times> json) list"

text \<open>\<^verbatim>\<open>obj[key]\<close> with a string key: only a dictionary that has the key answers.\<close>

fun getitem :: "json \<Rightarrow> string \<Rightarrow> exn + json" where
  "getitem (JDict kvs) k = (case map_of kvs k of None \<Rightarrow> Inl (KeyError k) | Some v \<Rightarrow> Inr v)"
| "getitem _ k = Inl TypeError"

text \<open>
  \<^verbatim>\<open>obj[key] = value\<close> with a string key: a key that is present keeps its place, a
  new key goes last.
\<close>

fun setitem :: "json \<Rightarrow> string \<Rightarrow> json \<Rightarrow> exn + json" where
  "setitem (JDict kvs) k v = Inr (JDict (AList.update k v kvs))"
| "setitem _ k v = Inl TypeError"

text \<open>The value of a field, if the object is a dictionary that has it.\<close>

fun field :: "json \<Rightarrow> string \<Rightarrow> json option" where
  "field (JDict kvs) k = map_of kvs k"
| "field _ k = None"

subsection \<open>Paths\<close>

text \<open>\<^verbatim>\<open>os.path.basename\<close> and \<^verbatim>\<open>os.path.join\<close> of two parts, as in \<^verbatim>\<open>posixpath\<close>.\<close>

definition basename :: "string \<Rightarrow> string" where
  "basename p = rev (takeWhile (\<lambda>c. c \<noteq> CHR ''/'') (rev p))"

definition path_join :: "string \<Rightarrow> string \<Rightarrow> string" where
  "path_join a b =
     (if b \<noteq> [] \<and> hd b = CHR ''/'' then b
      else if a = [] \<or> last a = CHR ''/'' then a @ b
      else a @ ''/'' @ b)"

text \<open>
  \<^verbatim>\<open>os.path.dirname\<close>, as in \<^verbatim>\<open>posixpath\<close>: what stands before the last slash, without
  its trailing slashes unless it is made of slashes only.
\<close>

definition dirname :: "string \<Rightarrow> string" where
  "dirname p =
     (let head = rev (dropWhile (\<lambda>c. c \<noteq> CHR ''/'') (rev p)) in
      if head \<noteq> [] \<and> \<not> list_all (\<lambda>c. c = CHR ''/'') head
      then rev (dropWhile (\<lambda>c. c = CHR ''/'') (rev head))
      else head)"

text \<open>
  The directories above a path, from the top: for \<^verbatim>\<open>/work/tmp\<close> they are \<^verbatim>\<open>/\<close> and
  \<^verbatim>\<open>/work\<close>.
\<close>

fun parents_from :: "string \<Rightarrow> string \<Rightarrow> string list" where
  "parents_from pre [] = []"
| "parents_from pre (c # cs) =
     (if c = CHR ''/'' then (if pre = [] then ''/'' else pre) # parents_from (pre @ [c]) cs
      else parents_from (pre @ [c]) cs)"

definition parents :: "string \<Rightarrow> string list" where
  "parents p = parents_from [] p"

subsection \<open>Text files\<close>

text \<open>
  A file's content is its text (encoding and decoding are not modelled). Reading in
  text mode translates \<^verbatim>\<open>\r\n\<close> and a lone \<^verbatim>\<open>\r\<close> to \<^verbatim>\<open>\n\<close>; iterating over the
  file yields its lines, each with its newline (the last line may lack one). Writing
  is as on POSIX: \<^verbatim>\<open>\n\<close> is written as it is.
\<close>

fun universal_newlines :: "string \<Rightarrow> string" where
  "universal_newlines [] = []"
| "universal_newlines (c # cs) =
     (if c = CHR 0x0D then
        (case cs of
           [] \<Rightarrow> [CHR 0x0A]
         | d # ds \<Rightarrow>
             if d = CHR 0x0A then CHR 0x0A # universal_newlines ds
             else CHR 0x0A # universal_newlines cs)
      else c # universal_newlines cs)"

fun split_lines :: "string \<Rightarrow> string list" where
  "split_lines [] = []"
| "split_lines (c # cs) =
     (if c = CHR 0x0A then [c] # split_lines cs
      else (case split_lines cs of [] \<Rightarrow> [c # []] | l # ls \<Rightarrow> (c # l) # ls))"

definition file_lines :: "string \<Rightarrow> string list" where
  "file_lines content = split_lines (universal_newlines content)"

subsection \<open>The world\<close>

text \<open>
  The arguments of \<^verbatim>\<open>SamplingParams\<close>, \<^verbatim>\<open>LLM\<close> and
  \<^verbatim>\<open>evaluate_functional_correctness\<close>, as the script gives them. A decimal literal is
  the rational it denotes (\<^verbatim>\<open>0.95\<close> is \<open>95 / 100\<close>); \<^verbatim>\<open>tokenizer.eos_token_id\<close> may be
  \<^verbatim>\<open>None\<close>. A chat message is its role and its content.
\<close>

record sampling_params =
  temperature :: rat
  max_tokens :: nat
  top_p :: rat
  stop_token_ids :: "int option list"

record llm_config =
  model :: string
  tensor_parallel_size :: int
  max_model_len :: nat
  trust_remote_code :: bool
  enforce_eager :: bool

record eval_call =
  input_file :: string
  tmp_dir :: string
  n_workers :: nat
  timeout :: rat
  problem_file :: string
  lang_arg :: string

text \<open>The calls the script makes, in the order it makes them.\<close>

datatype event =
    SetEnviron string string
  | SetSeed int
  | Makedirs string
  | OpenRead string
  | OpenWrite string
  | FromPretrained string
  | LoadLLM llm_config
  | ApplyChatTemplate "(string \<times> string) list"
  | Generate "string list" sampling_params
  | Evaluate eval_call

text \<open>
  The world. \<open>resolve\<close> gives for a path as the script writes it the canonical path
  of what it names, as \<^verbatim>\<open>os.path.realpath\<close> does: absolute, without \<^verbatim>\<open>.\<close>, \<^verbatim>\<open>..\<close>,
  repeated slashes or symbolic links, so that two paths name the same file exactly when
  they resolve to the same canonical path. The script changes neither the working
  directory nor any link, so \<open>resolve\<close> stays as it is. \<open>files\<close> holds the content of
  the regular files and \<open>dirs\<close> the directories, both by canonical path. Hard links
  and access rights are not modelled. The directory of a file is \<open>dirname\<close> of its
  canonical path.
\<close>

record world =
  resolve :: "string \<Rightarrow> string"
  files :: "string \<rightharpoonup> string"
  dirs :: "string set"
  environ :: "string \<rightharpoonup> string"
  rng_seed :: "int option"
  trace :: "event list"

type_synonym 'a io = "world \<Rightarrow> (exn + 'a) \<times> world"

definition io_return :: "'a \<Rightarrow> 'a io" where
  "io_return x = (\<lambda>w. (Inr x, w))"

definition io_raise :: "exn \<Rightarrow> 'a io" where
  "io_raise e = (\<lambda>w. (Inl e, w))"

definition io_bind :: "'a io \<Rightarrow> ('a \<Rightarrow> 'b io) \<Rightarrow> 'b io" where
  "io_bind m f = (\<lambda>w. case m w of (Inl e, w') \<Rightarrow> (Inl e, w') | (Inr x, w') \<Rightarrow> f x w')"

text \<open>A pure computation that may raise, run as a statement.\<close>

definition io_lift :: "exn + 'a \<Rightarrow> 'a io" where
  "io_lift r = (\<lambda>w. (r, w))"

text \<open>A library call: it is recorded, and returns or raises.\<close>

definition io_call :: "event \<Rightarrow> exn + 'a \<Rightarrow> 'a io" where
  "io_call ev r = (\<lambda>w. (r, w\<lparr>trace := trace w @ [ev]\<rparr>))"

fun io_mapM :: "('a \<Rightarrow> 'b io) \<Rightarrow> 'a list \<Rightarrow> 'b list io" where
  "io_mapM f [] = io_return []"
| "io_mapM f (x # xs) =
     io_bind (f x) (\<lambda>y. io_bind (io_mapM f xs) (\<lambda>ys. io_return (y # ys)))"

text \<open>The same loop for a pure body: the first exception ends it.\<close>

fun traverse :: "('a \<Rightarrow> exn + 'b) \<Rightarrow> 'a list \<Rightarrow> exn + 'b list" where
  "traverse f [] = Inr []"
| "traverse f (x # xs) =
     (case f x of
        Inl e \<Rightarrow> Inl e
      | Inr y \<Rightarrow> (case traverse f xs of Inl e \<Rightarrow> Inl e | Inr ys \<Rightarrow> Inr (y # ys)))"

subsection \<open>Operating system calls\<close>

text \<open>
  \<^verbatim>\<open>os.path.exists\<close>: a file or a directory is there.
\<close>

definition path_exists :: "world \<Rightarrow> string \<Rightarrow> bool" where
  "path_exists w p \<longleftrightarrow> resolve w p \<in> dom (files w) \<or> resolve w p \<in> dirs w"

definition set_environ :: "string \<Rightarrow> string \<Rightarrow> unit io" where
  "set_environ k v =
     (\<lambda>w. (Inr (), w\<lparr>environ := (environ w)(k \<mapsto> v), trace := trace w @ [SetEnviron k v]\<rparr>))"

definition set_seed :: "int \<Rightarrow> unit io" where
  "set_seed n = (\<lambda>w. (Inr (), w\<lparr>rng_seed := Some n, trace := trace w @ [SetSeed n]\<rparr>))"

text \<open>
  \<^verbatim>\<open>os.makedirs(p, exist_ok=True)\<close>: the directory and the directories above it are
  there afterwards. It fails on the empty path, when a regular file stands at the path,
  and when one stands at a directory above it.
\<close>

definition makedirs :: "string \<Rightarrow> unit io" where
  "makedirs p =
     (\<lambda>w. let w1 = w\<lparr>trace := trace w @ [Makedirs p]\<rparr>; c = resolve w p in
        if p = [] then (Inl (FileNotFoundError p), w1)
        else if c \<in> dom (files w) then (Inl (FileExistsError p), w1)
        else if list_ex (\<lambda>q. q \<in> dom (files w)) (parents c)
          then (Inl (NotADirectoryError p), w1)
        else (Inr (), w1\<lparr>dirs := dirs w \<union> set (c # parents c)\<rparr>))"

text \<open>\<^verbatim>\<open>open(p)\<close> and reading the whole file.\<close>

definition read_text :: "string \<Rightarrow> string io" where
  "read_text p =
     (\<lambda>w. let w1 = w\<lparr>trace := trace w @ [OpenRead p]\<rparr>; c = resolve w p in
        case files w c of
          Some content \<Rightarrow> (Inr content, w1)
        | None \<Rightarrow>
            if c \<in> dirs w then (Inl (IsADirectoryError p), w1)
            else (Inl (FileNotFoundError p), w1))"

text \<open>
  \<^verbatim>\<open>open(p, "w")\<close>, the writes and the close. Opening fails on the empty path and on a
  directory; a file that is there is replaced; a file that is not there is made, which
  needs its parent directory: without it the open raises \<^verbatim>\<open>FileNotFoundError\<close>.
\<close>

definition write_text :: "string \<Rightarrow> string \<Rightarrow> unit io" where
  "write_text p content =
     (\<lambda>w. let w1 = w\<lparr>trace := trace w @ [OpenWrite p]\<rparr>; c = resolve w p in
        if p = [] then (Inl (FileNotFoundError p), w1)
        else if c \<in> dirs w then (Inl (IsADirectoryError p), w1)
        else if c \<in> dom (files w) then (Inr (), w1\<lparr>files := (files w)(c \<mapsto> content)\<rparr>)
        else if dirname c \<in> dom (files w) then (Inl (NotADirectoryError p), w1)
        else if dirname c \<notin> dirs w then (Inl (FileNotFoundError p), w1)
        else (Inr (), w1\<lparr>files := (files w)(c \<mapsto> content)\<rparr>))"

subsection \<open>The libraries\<close>

text \<open>
  \<open>'tok\<close> is a loaded tokenizer, \<open>'llm\<close> a loaded engine, \<open>'res\<close> the evaluator's
  summary. \<open>generate\<close> returns, for each request, the texts of its completions;
  \<open>evaluate_functional_correctness\<close> may read the files, which it is given as they
  are found by path (what it writes is not modelled). \<open>json_dumps\<close> is total:
  every value of \<open>json\<close> can be serialized.
  \<open>languge_settings\<close> and \<open>extract_generation_code\<close> are those of \<^verbatim>\<open>utils.utils\<close>,
  \<open>data_abs_dir\<close> is the \<^verbatim>\<open>data\<close> directory beside the script. A library call is a
  function of its arguments.
\<close>

record ('tok, 'llm, 'res) externals =
  from_pretrained :: "string \<Rightarrow> exn + 'tok"
  eos_token_id :: "'tok \<Rightarrow> int option"
  apply_chat_template :: "'tok \<Rightarrow> (string \<times> string) list \<Rightarrow> exn + string"
  LLM :: "llm_config \<Rightarrow> exn + 'llm"
  generate :: "'llm \<Rightarrow> string list \<Rightarrow> sampling_params \<Rightarrow> exn + string list list"
  json_loads :: "string \<Rightarrow> exn + json"
  json_dumps :: "json \<Rightarrow> string"
  languge_settings :: "string \<rightharpoonup> (string \<rightharpoonup> string)"
  extract_generation_code :: "json \<Rightarrow> string \<Rightarrow> exn + json"
  evaluate_functional_correctness :: "eval_call \<Rightarrow> (string \<rightharpoonup> string) \<Rightarrow> exn + 'res"
  data_abs_dir :: string

subsection \<open>Loading and writing records\<close>

text \<open>\<^verbatim>\<open>[json.loads(x) for x in open(path) if x.strip()]\<close>\<close>

definition load_lines :: "(string \<Rightarrow> exn + json) \<Rightarrow> string list \<Rightarrow> exn + json list" where
  "load_lines loads xs = traverse loads (filter (\<lambda>x. strip x \<noteq> []) xs)"

definition load_examples :: "('tok, 'llm, 'res) externals \<Rightarrow> string \<Rightarrow> json list io" where
  "load_examples X path =
     io_bind (read_text path) (\<lambda>content. io_lift (load_lines (json_loads X) (file_lines content)))"

text \<open>
  \<^verbatim>\<open>with open(path, "w", encoding="utf-8") as fw: for ex in exs: fw.write(json.dumps(ex) + "\n")\<close>
\<close>

definition jsonl :: "(json \<Rightarrow> string) \<Rightarrow> json list \<Rightarrow> string" where
  "jsonl dumps exs = concat (map (\<lambda>ex. dumps ex @ [CHR 0x0A]) exs)"

definition write_examples :: "('tok, 'llm, 'res) externals \<Rightarrow> string \<Rightarrow> json list \<Rightarrow> unit io" where
  "write_examples X path exs = write_text path (jsonl (json_dumps X) exs)"

subsection \<open>The command line\<close>

record args =
  model_path :: string
  gpus_num :: int
  output_path :: string
  language :: string
  temp_dir :: string
  seed :: int

text \<open>The defaults of the argument parser.\<close>

definition default_args :: args where
  "default_args =
     \<lparr>model_path = ''/data4/sft_output/qwen2-instruct-0709/checkpoint-1400'',
      gpus_num = 1,
      output_path = ''outputs/qwen2-sft.json'',
      language = ''python'',
      temp_dir = ''tmp'',
      seed = 42\<rparr>"

subsection \<open>The generate and evaluate flow\<close>

definition problem_file_of :: "('tok, 'llm, 'res) externals \<Rightarrow> string \<Rightarrow> string" where
  "problem_file_of X lang = path_join (data_abs_dir X) (''humaneval-'' @ lang @ ''.jsonl'')"

definition make_sampling_params :: "('tok, 'llm, 'res) externals \<Rightarrow> 'tok \<Rightarrow> sampling_params" where
  "make_sampling_params X tokenizer =
     \<lparr>temperature = 0, max_tokens = 1024, top_p = 95 / 100,
      stop_token_ids = [eos_token_id X tokenizer]\<rparr>"

definition make_llm_config :: "args \<Rightarrow> llm_config" where
  "make_llm_config a =
     \<lparr>model = model_path a, tensor_parallel_size = gpus_num a, max_model_len = 8192,
      trust_remote_code = True, enforce_eager = True\<rparr>"

text \<open>
  The instruction for one example: \<^verbatim>\<open>languge_settings[lang]["full_name"]\<close>, then
  \<^verbatim>\<open>example["prompt"]\<close>, whose \<^verbatim>\<open>strip\<close> needs a string.
\<close>

definition example_prompt :: "('tok, 'llm, 'res) externals \<Rightarrow> string \<Rightarrow> json \<Rightarrow> exn + string" where
  "example_prompt X lang example =
     (case languge_settings X lang of
        None \<Rightarrow> Inl (KeyError lang)
      | Some setting \<Rightarrow>
          (case setting ''full_name'' of
             None \<Rightarrow> Inl (KeyError ''full_name'')
           | Some full_name \<Rightarrow>
               (case getitem example ''prompt'' of
                  Inl e \<Rightarrow> Inl e
                | Inr (JStr question) \<Rightarrow> build_deepseekcoder_instruction full_name question
                | Inr _ \<Rightarrow> Inl AttributeError)))"

text \<open>One round of the first loop: the message and its rendering by the chat template.\<close>

definition render_example ::
  "('tok, 'llm, 'res) externals \<Rightarrow> 'tok \<Rightarrow> string \<Rightarrow> json \<Rightarrow> string io" where
  "render_example X tokenizer lang example =
     io_bind (io_lift (example_prompt X lang example)) (\<lambda>prompt.
       let message = [(''user'', prompt)] in
       io_call (ApplyChatTemplate message) (apply_chat_template X tokenizer message))"

text \<open>
  One round of the second loop: \<^verbatim>\<open>output.outputs[0].text\<close>, \<^verbatim>\<open>examples[i]\<close>, the
  assignment to \<^verbatim>\<open>example["output"]\<close> and the extraction.
\<close>

definition with_output :: "json list \<Rightarrow> nat \<times> string list \<Rightarrow> exn + json" where
  "with_output examples p =
     (case snd p of
        [] \<Rightarrow> Inl IndexError
      | text # _ \<Rightarrow>
          if fst p < length examples then setitem (examples ! fst p) ''output'' (JStr text)
          else Inl IndexError)"

definition generated_example ::
  "('tok, 'llm, 'res) externals \<Rightarrow> string \<Rightarrow> json list \<Rightarrow> nat \<times> string list \<Rightarrow> exn + json" where
  "generated_example X lang examples p =
     (case with_output examples p of
        Inl e \<Rightarrow> Inl e
      | Inr example \<Rightarrow> extract_generation_code X example lang)"

definition eval_call_of ::
  "('tok, 'llm, 'res) externals \<Rightarrow> string \<Rightarrow> string \<Rightarrow> string \<Rightarrow> eval_call" where
  "eval_call_of X path tmp lang =
     \<lparr>input_file = path, tmp_dir = tmp, n_workers = 8, timeout = 3,
      problem_file = problem_file_of X lang, lang_arg = lang\<rparr>"

definition run_evaluation :: "('tok, 'llm, 'res) externals \<Rightarrow> eval_call \<Rightarrow> 'res io" where
  "run_evaluation X c =
     (\<lambda>w. (evaluate_functional_correctness X c (\<lambda>p. files w (resolve w p)),
           w\<lparr>trace := trace w @ [Evaluate c]\<rparr>))"

definition generate_main :: "('tok, 'llm, 'res) externals \<Rightarrow> args \<Rightarrow> unit io" where
  "generate_main X a =
     (let model_name_or_path = model_path a;
          lang = language a;
          saved_path = output_path a
      in
      io_bind (makedirs (temp_dir a)) (\<lambda>_.
      io_bind (io_call (FromPretrained model_name_or_path)
                 (from_pretrained X model_name_or_path)) (\<lambda>tokenizer.
      io_bind (io_call (LoadLLM (make_llm_config a)) (LLM X (make_llm_config a))) (\<lambda>llm.
      let sp = make_sampling_params X tokenizer in
      io_bind (load_examples X (problem_file_of X lang)) (\<lambda>examples.
      io_bind (io_mapM (render_example X tokenizer lang) examples) (\<lambda>messages_list.
      io_bind (io_call (Generate messages_list sp) (generate X llm messages_list sp)) (\<lambda>outputs.
      io_bind (io_lift (traverse (generated_example X lang examples) (enumerate 0 outputs)))
        (\<lambda>generated_examples.
      io_bind (write_examples X saved_path generated_examples) (\<lambda>_.
      io_bind (run_evaluation X (eval_call_of X saved_path (temp_dir a) lang)) (\<lambda>result.
      io_return ()))))))))))"

subsection \<open>The evaluate-only flow\<close>

definition assert_exists :: "string \<Rightarrow> unit io" where
  "assert_exists p =
     (\<lambda>w. if path_exists w p then (Inr (), w)
          else (Inl (AssertionError (''Not fond output file: '' @ p)), w))"

definition evaluation_only :: "('tok, 'llm, 'res) externals \<Rightarrow> args \<Rightarrow> unit io" where
  "evaluation_only X a =
     (let lang = language a in
      io_bind (assert_exists (output_path a)) (\<lambda>_.
      io_bind (makedirs (temp_dir a)) (\<lambda>_.
      let output_name = basename (output_path a) in
      io_bind (load_examples X (output_path a)) (\<lambda>output_examples.
      io_bind (io_lift (traverse (\<lambda>ex. extract_generation_code X ex lang) output_examples))
        (\<lambda>processed_examples.
      let processed_path = path_join (temp_dir a) output_name in
      io_bind (write_examples X processed_path processed_examples) (\<lambda>_.
      io_bind (run_evaluation X (eval_call_of X processed_path (temp_dir a) lang)) (\<lambda>result.
      io_return ())))))))"

subsection \<open>The entry point\<close>

text \<open>What follows \<^verbatim>\<open>parser.parse_args()\<close> under \<^verbatim>\<open>if __name__ == "__main__"\<close>.\<close>

definition main :: "('tok, 'llm, 'res) externals \<Rightarrow> args \<Rightarrow> unit io" where
  "main X a =
     io_bind (set_environ ''TOKENIZERS_PARALLELISM'' ''false'') (\<lambda>_.
     io_bind (set_seed (seed a)) (\<lambda>_.
     generate_main X a))"

section \<open>Notions used in the statements\<close>

text \<open>
  The number of fences in a text, read from the left: each \<^verbatim>\<open>```\<close> found is counted and
  skipped. A text with one fenced block has two.
\<close>

fun count_fences :: "string \<Rightarrow> nat" where
  "count_fences [] = 0"
| "count_fences (c # cs) =
     (if prefix fence (c # cs) then Suc (count_fences (drop 2 cs)) else count_fences cs)"

text \<open>A line is blank when it holds nothing but whitespace.\<close>

definition blank :: "string \<Rightarrow> bool" where
  "blank x = list_all isspace x"

text \<open>The calls that load or use the tokenizer.\<close>

fun is_tokenizer_event :: "event \<Rightarrow> bool" where
  "is_tokenizer_event (FromPretrained p) = True"
| "is_tokenizer_event (ApplyChatTemplate m) = True"
| "is_tokenizer_event _ = False"

fun is_generate :: "event \<Rightarrow> bool" where
  "is_generate (Generate ps sp) = True"
| "is_generate _ = False"

text \<open>
  An event that opens no file for writing but \<open>p\<close> and hands no file to the evaluator
  but \<open>p\<close>.
\<close>

fun touches_only :: "string \<Rightarrow> event \<Rightarrow> bool" where
  "touches_only p (OpenWrite q) = (q = p)"
| "touches_only p (Evaluate c) = (input_file c = p)"
| "touches_only p _ = True"

text \<open>
  What a statement may do, whatever its outcome: it appends events that satisfy \<open>ok\<close>
  to the trace, changes no file but those \<open>may_write\<close> allows (given how paths
  resolve), and leaves the environment, the seed and the resolution of paths alone.
\<close>

definition effects ::
  "(event \<Rightarrow> bool) \<Rightarrow> ((string \<Rightarrow> string) \<Rightarrow> string \<Rightarrow> bool) \<Rightarrow> 'a io \<Rightarrow> bool" where
  "effects ok may_write m \<longleftrightarrow>
     (\<forall>w. (\<exists>evs. trace (snd (m w)) = trace w @ evs \<and> list_all ok evs) \<and>
          (\<forall>q. \<not> may_write (resolve w) q \<longrightarrow> files (snd (m w)) q = files w q) \<and>
          environ (snd (m w)) = environ w \<and>
          rng_seed (snd (m w)) = rng_seed w \<and>
          resolve (snd (m w)) = resolve w)"

text \<open>
  When \<^verbatim>\<open>open(p, "w")\<close> succeeds: the path is not empty and names no directory, and
  either the file is there already or its parent directory is.
\<close>

definition writable :: "world \<Rightarrow> string \<Rightarrow> bool" where
  "writable w p \<longleftrightarrow>
     p \<noteq> [] \<and> resolve w p \<notin> dirs w \<and>
     (resolve w p \<in> dom (files w) \<or>
      (dirname (resolve w p) \<notin> dom (files w) \<and> dirname (resolve w p) \<in> dirs w))"

text \<open>The value of the local variable \<^verbatim>\<open>processed_path\<close> of \<^verbatim>\<open>evaluation_only\<close>.\<close>

definition processed_path_of :: "args \<Rightarrow> string" where
  "processed_path_of a = path_join (temp_dir a) (basename (output_path a))"

section \<open>The code extractor, from its contract\<close>

text \<open>
  Modelled from the spec: \<^verbatim>\<open>utils.extract_generation_code\<close> is not among the sources.
  The spec (Code Extractor, Data Model) gives its contract: from a generation record and
  a language tag it locates the fenced code block in the raw model text, which the
  record holds under \<^verbatim>\<open>output\<close>, by language-specific heuristics that may merge the
  code with the original stub, and returns the record augmented with a \<^verbatim>\<open>code\<close>
  field. The heuristics, which the spec leaves open, are the parameter \<open>locate\<close>: from
  the language tag, the stub and the raw text to the code.
\<close>

definition extract_generation_code_spec ::
  "(string \<Rightarrow> string \<Rightarrow> string \<Rightarrow> string) \<Rightarrow> json \<Rightarrow> string \<Rightarrow> exn + json" where
  "extract_generation_code_spec locate example lang_code =
     (case getitem example ''prompt'' of
        Inl e \<Rightarrow> Inl e
      | Inr (JStr stub) \<Rightarrow>
          (case getitem example ''output'' of
             Inl e \<Rightarrow> Inl e
           | Inr (JStr raw) \<Rightarrow> setitem example ''code'' (JStr (locate lang_code stub raw))
           | Inr _ \<Rightarrow> Inl TypeError)
      | Inr _ \<Rightarrow> Inl TypeError)"

section \<open>A small instance\<close>

text \<open>
  Stand-ins for the libraries, and worlds to run the script in. \<open>demo_dumps\<close> writes
  strings, lists and dictionaries as JSON does (numbers are not needed and print as
  zero); \<open>demo_loads\<close> knows a few lines by heart; the engine answers every prompt
  with the same text; the extractor stores the stripped answer; the evaluator counts
  the lines of the file it is given.
\<close>

definition demo_escape :: "char \<Rightarrow> string" where
  "demo_escape c =
     (if c = CHR 0x0A then [CHR 0x5C, CHR ''n'']
      else if c = CHR 0x0D then [CHR 0x5C, CHR ''r'']
      else if c = CHR 0x22 \<or> c = CHR 0x5C then [CHR 0x5C, c]
      else [c])"

definition demo_quote :: "string \<Rightarrow> string" where
  "demo_quote s = [CHR 0x22] @ concat (map demo_escape s) @ [CHR 0x22]"

fun demo_join :: "string list \<Rightarrow> string" where
  "demo_join [] = []"
| "demo_join [x] = x"
| "demo_join (x # y # ys) = x @ '', '' @ demo_join (y # ys)"

fun demo_dumps :: "json \<Rightarrow> string" where
  "demo_dumps JNull = ''null''"
| "demo_dumps (JBool b) = (if b then ''true'' else ''false'')"
| "demo_dumps (JInt n) = ''0''"
| "demo_dumps (JFloat m e) = ''0.0''"
| "demo_dumps (JStr s) = demo_quote s"
| "demo_dumps (JList xs) = ''['' @ demo_join (map demo_dumps xs) @ '']''"
| "demo_dumps (JDict kvs) =
     ''{'' @ demo_join (map (\<lambda>kv. demo_quote (fst kv) @ '': '' @ demo_dumps (snd kv)) kvs) @ ''}''"

definition demo_problems :: "(string \<times> json) list" where
  "demo_problems =
     [(''{task 0}'',
       JDict [(''task_id'', JStr ''HumanEval/0''), (''prompt'', JStr ''def one():\<newline>'')]),
      (''{task 1}'',
       JDict [(''task_id'', JStr ''HumanEval/1''), (''prompt'', JStr ''  def two():\<newline>'')]),
      (''{done 0}'',
       JDict [(''task_id'', JStr ''HumanEval/0''), (''prompt'', JStr ''def one():\<newline>''),
              (''output'', JStr '' return 1 '')]),
      (''{clean 0}'',
       JDict [(''task_id'', JStr ''HumanEval/0''), (''prompt'', JStr ''def one():\<newline>''),
              (''output'', JStr '' return 1 ''),
              (''code'', JStr ''def one():\<newline>return 1'')])]"

definition demo_loads :: "string \<Rightarrow> exn + json" where
  "demo_loads s =
     (case map_of demo_problems (strip s) of None \<Rightarrow> Inl ValueError | Some j \<Rightarrow> Inr j)"

definition demo_extract :: "json \<Rightarrow> string \<Rightarrow> exn + json" where
  "demo_extract ex lang =
     (case getitem ex ''output'' of
        Inl e \<Rightarrow> Inl e
      | Inr (JStr text) \<Rightarrow> setitem ex ''generation'' (JStr (strip text))
      | Inr _ \<Rightarrow> Inl TypeError)"

definition demo_externals :: "(unit, unit, nat) externals" where
  "demo_externals =
     \<lparr>from_pretrained = (\<lambda>p. Inr ()),
      eos_token_id = (\<lambda>t. Some 2),
      apply_chat_template =
        (\<lambda>t ms. Inr (concat (map (\<lambda>m. ''<'' @ fst m @ ''>'' @ snd m) ms))),
      LLM = (\<lambda>c. Inr ()),
      generate = (\<lambda>l ps sp. Inr (map (\<lambda>p. ['' return 1 '']) ps)),
      json_loads = demo_loads,
      json_dumps = demo_dumps,
      languge_settings = [''python'' \<mapsto> [''full_name'' \<mapsto> ''Python'']],
      extract_generation_code = demo_extract,
      evaluate_functional_correctness =
        (\<lambda>c fs. case fs (input_file c) of
                  None \<Rightarrow> Inl (FileNotFoundError (input_file c))
                | Some content \<Rightarrow> Inr (length (file_lines content))),
      data_abs_dir = ''data''\<rparr>"

text \<open>
  How paths resolve in the small worlds: relative to the working directory
  \<^verbatim>\<open>/work\<close>, with empty and \<^verbatim>\<open>.\<close> components dropped and \<^verbatim>\<open>..\<close> going up (there are
  no links).
\<close>

fun components :: "string \<Rightarrow> string list" where
  "components [] = [Nil]"
| "components (c # cs) =
     (if c = CHR ''/'' then [] # components cs
      else (case components cs of [] \<Rightarrow> [c # []] | x # xs \<Rightarrow> (c # x) # xs))"

definition norm_step :: "string list \<Rightarrow> string \<Rightarrow> string list" where
  "norm_step st part =
     (if part = [] \<or> part = ''.'' then st
      else if part = ''..'' then tl st
      else part # st)"

definition demo_resolve :: "string \<Rightarrow> string" where
  "demo_resolve p =
     (let start = (if p \<noteq> [] \<and> hd p = CHR ''/'' then [] else [''work'']);
          st = foldl norm_step [] (start @ components p)
      in if st = [] then ''/'' else concat (map (\<lambda>c. ''/'' @ c) (rev st)))"

text \<open>A world with a problem file of two problems, a blank line between them.\<close>

definition demo_world :: world where
  "demo_world =
     \<lparr>resolve = demo_resolve,
      files = [''/work/data/humaneval-python.jsonl'' \<mapsto> ''{task 0}\<newline>  \<newline>{task 1}\<newline>\<newline>''],
      dirs = {''/'', ''/work'', ''/work/data'', ''/work/outputs''},
      environ = Map.empty,
      rng_seed = None,
      trace = []\<rparr>"

text \<open>A world with an output file of one record, at the path \<open>p\<close>.\<close>

definition demo_output_world :: "string \<Rightarrow> world" where
  "demo_output_world p =
     \<lparr>resolve = demo_resolve,
      files = [demo_resolve p \<mapsto> ''{done 0}\<newline>''],
      dirs = {''/'', ''/work'', ''/work/tmp'', ''/work/outputs''},
      environ = Map.empty,
      rng_seed = None,
      trace = []\<rparr>"

text \<open>
  A stand-in for the extractor's heuristics, a record before and after extraction, the
  libraries with the extractor of the contract, and a world whose output file holds the
  extracted record.
\<close>

definition demo_locate :: "string \<Rightarrow> string \<Rightarrow> string \<Rightarrow> string" where
  "demo_locate lang_code stub raw = stub @ strip raw"

definition demo_record :: json where
  "demo_record =
     JDict [(''task_id'', JStr ''HumanEval/0''), (''prompt'', JStr ''def one():\<newline>''),
            (''output'', JStr '' return 1 '')]"

definition demo_extracted :: json where
  "demo_extracted =
     JDict [(''task_id'', JStr ''HumanEval/0''), (''prompt'', JStr ''def one():\<newline>''),
            (''output'', JStr '' return 1 ''), (''code'', JStr ''def one():\<newline>return 1'')]"

definition demo_spec_externals :: "(unit, unit, nat) externals" where
  "demo_spec_externals =
     demo_externals\<lparr>extract_generation_code := extract_generation_code_spec demo_locate\<rparr>"

definition demo_clean_world :: world where
  "demo_clean_world =
     \<lparr>resolve = demo_resolve,
      files = [''/work/outputs/qwen2-sft.json'' \<mapsto> ''{clean 0}\<newline>''],
      dirs = {''/'', ''/work'', ''/work/tmp'', ''/work/outputs''},
      environ = Map.empty,
      rng_seed = None,
      trace = []\<rparr>"

section \<open>Strings and the prompt builder\<close>

lemma strip_template:
  "strip template = instruction_text @ fence @ ''{}\<newline>{}\<newline>'' @ fence"
  by (simp add: strip_def template_def instruction_text_def fence_def isspace_def)

lemma build_deepseekcoder_instruction_eq:
  "build_deepseekcoder_instruction L Q =
     Inr (instruction_text @ fence @ lower L @ ''\<newline>'' @ strip Q @ ''\<newline>'' @ fence)"
  by (simp add: build_deepseekcoder_instruction_def strip_template instruction_text_def
      fence_def sum.map_comp comp_def sum.map_ident)

lemma count_fences_skip:
  "CHR ''`'' \<notin> set xs \<Longrightarrow> count_fences (xs @ ys) = count_fences ys"
  by (induction xs) (auto simp: fence_def)

lemma of_char_lower_char:
  "(of_char (lower_char c) :: nat) =
     (let n = (of_char c :: nat) in
      if (65 \<le> n \<and> n \<le> 90) \<or> (192 \<le> n \<and> n \<le> 214) \<or> (216 \<le> n \<and> n \<le> 222)
      then n + 32 else n)"
  by (simp add: lower_char_def Let_def)

lemma lower_char_backtick: "lower_char c = CHR ''`'' \<longleftrightarrow> c = CHR ''`''"
proof -
  have "lower_char c = CHR ''`'' \<longleftrightarrow> (of_char (lower_char c) :: nat) = of_char (CHR ''`'')"
    by (simp only: of_char_eq_iff)
  also have "\<dots> \<longleftrightarrow> (of_char c :: nat) = of_char (CHR ''`'')"
    by (simp add: of_char_lower_char Let_def)
  also have "\<dots> \<longleftrightarrow> c = CHR ''`''"
    by (simp only: of_char_eq_iff)
  finally show ?thesis .
qed

lemma lower_no_backtick:
  assumes "CHR ''`'' \<notin> set L"
  shows "CHR ''`'' \<notin> set (lower L)"
proof
  assume "CHR ''`'' \<in> set (lower L)"
  then have "CHR ''`'' \<in> lower_char ` set L"
    by (simp only: lower_def set_map)
  then show False
  proof (rule imageE)
    fix c
    assume c: "CHR ''`'' = lower_char c" "c \<in> set L"
    from c(1) have "lower_char c = CHR ''`''"
      by (rule sym)
    then have "c = CHR ''`''"
      by (simp only: lower_char_backtick)
    with c(2) have "CHR ''`'' \<in> set L"
      by (simp only:)
    with assms show False
      by (rule notE)
  qed
qed

lemma set_strip: "set (strip Q) \<subseteq> set Q"
proof -
  have "set (strip Q) \<subseteq> set (dropWhile isspace Q)"
    unfolding strip_def by (auto dest: set_dropWhileD)
  also have "\<dots> \<subseteq> set Q"
    by (auto dest: set_dropWhileD)
  finally show ?thesis .
qed

lemma dropWhile_id: "xs = [] \<or> \<not> P (hd xs) \<Longrightarrow> dropWhile P xs = xs"
  by (cases xs) auto

lemma strip_id: "Q = [] \<or> (\<not> isspace (hd Q) \<and> \<not> isspace (last Q)) \<Longrightarrow> strip Q = Q"
  by (cases "Q = []") (simp_all add: strip_def dropWhile_id hd_rev)

lemma instruction_text_no_backtick: "CHR ''`'' \<notin> set instruction_text"
  by (simp add: instruction_text_def)

lemma count_fences_instruction:
  assumes "CHR ''`'' \<notin> set L" and "CHR ''`'' \<notin> set Q"
  shows "count_fences
           (instruction_text @ fence @ lower L @ ''\<newline>'' @ strip Q @ ''\<newline>'' @ fence) = 2"
proof -
  have "CHR ''`'' \<notin> set (strip Q)"
    using assms(2) set_strip [of Q] by (rule contra_subsetD [rotated])
  then have inner: "CHR ''`'' \<notin> set (lower L @ ''\<newline>'' @ strip Q @ ''\<newline>'')"
    using lower_no_backtick [OF assms(1)] by simp
  have "count_fences
          (instruction_text @ fence @ lower L @ ''\<newline>'' @ strip Q @ ''\<newline>'' @ fence)
      = count_fences (fence @ (lower L @ ''\<newline>'' @ strip Q @ ''\<newline>'') @ fence)"
    using count_fences_skip [OF instruction_text_no_backtick] by simp
  also have "\<dots> = Suc (count_fences ((lower L @ ''\<newline>'' @ strip Q @ ''\<newline>'') @ fence))"
    by (simp add: fence_def)
  also have "\<dots> = Suc (count_fences fence)"
    using count_fences_skip [OF inner] by simp
  also have "\<dots> = 2"
    by (simp add: fence_def)
  finally show ?thesis .
qed

lemma lower_Python: "lower ''Python'' = ''python''"
  by code_simp

text \<open>
  C1, as stated, fails: the stub is stripped before it is embedded, so a stub that
  starts with blank lines, as HumanEval stubs often do, is not in the instruction
  verbatim. For the language \<^verbatim>\<open>Python\<close> and the stub \<^verbatim>\<open>"\n\ndef f():\n"\<close> the
  instruction ends in the block \<^verbatim>\<open>```python\ndef f():\n```\<close>, which holds no two
  newlines in a row.
\<close>

theorem build_instruction_drops_outer_whitespace:
  "build_deepseekcoder_instruction ''Python'' ''\<newline>\<newline>def f():\<newline>'' =
     Inr (instruction_text @ ''```python\<newline>def f():\<newline>```'')
   \<and> \<not> sublist ''\<newline>\<newline>def f():\<newline>''
         (instruction_text @ ''```python\<newline>def f():\<newline>```'')"
proof -
  have s: "strip ''\<newline>\<newline>def f():\<newline>'' = ''def f():''"
    by code_simp
  have "build_deepseekcoder_instruction ''Python'' ''\<newline>\<newline>def f():\<newline>'' =
     Inr (instruction_text @ ''```python\<newline>def f():\<newline>```'')"
    by (simp add: build_deepseekcoder_instruction_eq lower_Python s fence_def)
  moreover have "\<not> sublist ''\<newline>\<newline>def f():\<newline>''
      (instruction_text @ ''```python\<newline>def f():\<newline>```'')"
    by (simp add: instruction_text_def sublist_code)
  ultimately show ?thesis by simp
qed

text \<open>
  C1, amended: for every language name \<open>L\<close> and stub \<open>Q\<close> the builder returns the
  fixed instruction text followed by one fenced block: the fence, \<open>L\<close> in lower case,
  a newline, \<open>Q\<close> stripped of leading and trailing whitespace, a newline, the fence.
  The fixed text holds no backtick, so no fence; the stripped stub is in the result
  verbatim, and so is \<open>Q\<close> itself when it neither starts nor ends with whitespace; when
  neither \<open>L\<close> nor \<open>Q\<close> holds a backtick the result has exactly the two fences of that
  one block.
\<close>

theorem build_instruction_one_fenced_block:
  "build_deepseekcoder_instruction L Q =
     Inr (instruction_text @ fence @ lower L @ ''\<newline>'' @ strip Q @ ''\<newline>'' @ fence)
   \<and> CHR ''`'' \<notin> set instruction_text
   \<and> sublist (strip Q)
       (instruction_text @ fence @ lower L @ ''\<newline>'' @ strip Q @ ''\<newline>'' @ fence)
   \<and> (Q = [] \<or> (\<not> isspace (hd Q) \<and> \<not> isspace (last Q)) \<longrightarrow>
       sublist Q
         (instruction_text @ fence @ lower L @ ''\<newline>'' @ strip Q @ ''\<newline>'' @ fence))
   \<and> (CHR ''`'' \<notin> set L \<and> CHR ''`'' \<notin> set Q \<longrightarrow>
       count_fences
         (instruction_text @ fence @ lower L @ ''\<newline>'' @ strip Q @ ''\<newline>'' @ fence) = 2)"
proof -
  let ?r = "instruction_text @ fence @ lower L @ ''\<newline>'' @ strip Q @ ''\<newline>'' @ fence"
  have sub: "sublist (strip Q) ?r"
    unfolding sublist_def
    by (rule exI [of _ "instruction_text @ fence @ lower L @ ''\<newline>''"],
        rule exI [of _ "''\<newline>'' @ fence"]) simp
  have whole: "Q = [] \<or> (\<not> isspace (hd Q) \<and> \<not> isspace (last Q)) \<longrightarrow> sublist Q ?r"
  proof
    assume "Q = [] \<or> (\<not> isspace (hd Q) \<and> \<not> isspace (last Q))"
    then have "strip Q = Q"
      by (rule strip_id)
    with sub show "sublist Q ?r"
      by (simp only:)
  qed
  have two: "CHR ''`'' \<notin> set L \<and> CHR ''`'' \<notin> set Q \<longrightarrow> count_fences ?r = 2"
    by (intro impI, elim conjE) (rule count_fences_instruction)
  show ?thesis
    by (intro conjI) (rule build_deepseekcoder_instruction_eq,
        rule instruction_text_no_backtick, rule sub, rule whole, rule two)
qed

theorem build_instruction_one_fenced_block_witness:
  "build_deepseekcoder_instruction ''Python'' ''def f():'' =
     Inr (instruction_text @ ''```python\<newline>def f():\<newline>```'')
   \<and> sublist ''def f():'' (instruction_text @ ''```python\<newline>def f():\<newline>```'')
   \<and> count_fences (instruction_text @ ''```python\<newline>def f():\<newline>```'') = 2"
proof -
  have s: "strip ''def f():'' = ''def f():''"
    by code_simp
  have ends: "''def f():'' = [] \<or>
      (\<not> isspace (hd ''def f():'') \<and> \<not> isspace (last ''def f():''))"
    by (simp add: isspace_def)
  have ticks: "CHR ''`'' \<notin> set ''Python'' \<and> CHR ''`'' \<notin> set ''def f():''"
    by simp
  have r: "instruction_text @ fence @ lower ''Python'' @ ''\<newline>'' @ strip ''def f():'' @ ''\<newline>'' @ fence
      = instruction_text @ ''```python\<newline>def f():\<newline>```''"
    by (simp add: lower_Python s fence_def)
  from build_instruction_one_fenced_block [of "''Python''" "''def f():''"] ends ticks
  show ?thesis
    unfolding r by (simp only: simp_thms)
qed

section \<open>Statements and loops\<close>

lemma io_bind_Inr:
  "io_bind m f w = (Inr y, w') \<longleftrightarrow> (\<exists>x w1. m w = (Inr x, w1) \<and> f x w1 = (Inr y, w'))"
  by (auto simp: io_bind_def split: prod.splits sum.splits)

lemma io_return_Inr: "io_return x w = (Inr y, w') \<longleftrightarrow> y = x \<and> w' = w"
  by (auto simp: io_return_def)

lemma io_lift_Inr: "io_lift r w = (Inr y, w') \<longleftrightarrow> r = Inr y \<and> w' = w"
  by (auto simp: io_lift_def)

lemma io_call_Inr:
  "io_call ev r w = (Inr y, w') \<longleftrightarrow> r = Inr y \<and> w' = w\<lparr>trace := trace w @ [ev]\<rparr>"
  by (auto simp: io_call_def)

lemma traverse_Inr:
  "traverse f xs = Inr ys \<longleftrightarrow> list_all2 (\<lambda>x y. f x = Inr y) xs ys"
proof (induction xs arbitrary: ys)
  case Nil
  then show ?case by auto
next
  case (Cons x xs)
  show ?case
    by (cases ys) (auto simp: Cons.IH [symmetric] split: sum.splits)
qed

section \<open>Operating system calls and loading\<close>

lemma makedirs_Inr:
  "makedirs p w = (Inr u, w') \<longleftrightarrow>
     p \<noteq> [] \<and> resolve w p \<notin> dom (files w) \<and>
     \<not> list_ex (\<lambda>q. q \<in> dom (files w)) (parents (resolve w p)) \<and>
     w' = w\<lparr>trace := trace w @ [Makedirs p],
            dirs := dirs w \<union> set (resolve w p # parents (resolve w p))\<rparr>"
  by (auto simp: makedirs_def Let_def)

lemma read_text_Inr:
  "read_text p w = (Inr c, w') \<longleftrightarrow>
     files w (resolve w p) = Some c \<and> w' = w\<lparr>trace := trace w @ [OpenRead p]\<rparr>"
  by (auto simp: read_text_def Let_def split: option.splits)

lemma write_text_Inr:
  "write_text p c w = (Inr u, w') \<longleftrightarrow>
     writable w p \<and>
     w' = w\<lparr>trace := trace w @ [OpenWrite p], files := (files w)(resolve w p \<mapsto> c)\<rparr>"
  by (auto simp: write_text_def writable_def Let_def)

lemma write_text_Inl:
  "\<not> writable w p \<Longrightarrow>
     (\<exists>e. fst (write_text p c w) = Inl e) \<and> files (snd (write_text p c w)) = files w"
  by (auto simp: write_text_def writable_def Let_def)

lemma load_examples_Inr:
  "load_examples X p w = (Inr exs, w') \<longleftrightarrow>
     (\<exists>c. files w (resolve w p) = Some c \<and>
          load_lines (json_loads X) (file_lines c) = Inr exs) \<and>
     w' = w\<lparr>trace := trace w @ [OpenRead p]\<rparr>"
  by (auto simp: load_examples_def io_bind_Inr read_text_Inr io_lift_Inr)

lemma run_evaluation_Inr:
  "run_evaluation X c w = (Inr r, w') \<longleftrightarrow>
     evaluate_functional_correctness X c (\<lambda>p. files w (resolve w p)) = Inr r \<and>
     w' = w\<lparr>trace := trace w @ [Evaluate c]\<rparr>"
  by (auto simp: run_evaluation_def)

section \<open>A successful run of the generate and evaluate flow\<close>

lemma render_example_Inr:
  "render_example X tok lang ex w = (Inr m, w') \<longleftrightarrow>
     (\<exists>p. example_prompt X lang ex = Inr p \<and>
          apply_chat_template X tok [(''user'', p)] = Inr m \<and>
          w' = w\<lparr>trace := trace w @ [ApplyChatTemplate [(''user'', p)]]\<rparr>)"
  by (auto simp: render_example_def io_bind_Inr io_lift_Inr io_call_Inr Let_def)

lemma io_mapM_render_Inr:
  "io_mapM (render_example X tok lang) exs w = (Inr ms, w') \<Longrightarrow>
     \<exists>ps. list_all2 (\<lambda>ex p. example_prompt X lang ex = Inr p) exs ps \<and>
          list_all2 (\<lambda>p m. apply_chat_template X tok [(''user'', p)] = Inr m) ps ms \<and>
          w' = w\<lparr>trace := trace w @ map (\<lambda>p. ApplyChatTemplate [(''user'', p)]) ps\<rparr>"
proof (induction exs arbitrary: w ms)
  case Nil
  then show ?case by (simp add: io_return_Inr)
next
  case (Cons ex exs)
  from Cons.prems obtain m w1 ms' where
    1: "render_example X tok lang ex w = (Inr m, w1)" and
    2: "io_mapM (render_example X tok lang) exs w1 = (Inr ms', w')" and
    3: "ms = m # ms'"
    by (auto simp: io_bind_Inr io_return_Inr)
  from 1 obtain p where
    p: "example_prompt X lang ex = Inr p" "apply_chat_template X tok [(''user'', p)] = Inr m"
      "w1 = w\<lparr>trace := trace w @ [ApplyChatTemplate [(''user'', p)]]\<rparr>"
    by (auto simp: render_example_Inr)
  from Cons.IH [OF 2] obtain ps where
    ps: "list_all2 (\<lambda>ex p. example_prompt X lang ex = Inr p) exs ps"
      "list_all2 (\<lambda>p m. apply_chat_template X tok [(''user'', p)] = Inr m) ps ms'"
      "w' = w1\<lparr>trace := trace w1 @ map (\<lambda>p. ApplyChatTemplate [(''user'', p)]) ps\<rparr>"
    by blast
  show ?case
    by (rule exI [of _ "p # ps"]) (simp add: p ps 3)
qed

lemma generate_main_Inr:
  assumes "generate_main X a w = (Inr u, w')"
  shows "\<exists>tok llm content examples prompts rendered outputs recs.
     from_pretrained X (model_path a) = Inr tok \<and>
     LLM X (make_llm_config a) = Inr llm \<and>
     files w (resolve w (problem_file_of X (language a))) = Some content \<and>
     load_lines (json_loads X) (file_lines content) = Inr examples \<and>
     list_all2 (\<lambda>ex p. example_prompt X (language a) ex = Inr p) examples prompts \<and>
     list_all2 (\<lambda>p m. apply_chat_template X tok [(''user'', p)] = Inr m) prompts rendered \<and>
     generate X llm rendered (make_sampling_params X tok) = Inr outputs \<and>
     list_all2 (\<lambda>p r. generated_example X (language a) examples p = Inr r)
       (enumerate 0 outputs) recs \<and>
     files w' = (files w)(resolve w (output_path a) \<mapsto> jsonl (json_dumps X) recs) \<and>
     environ w' = environ w \<and> rng_seed w' = rng_seed w \<and> resolve w' = resolve w \<and>
     trace w' = trace w @
       [Makedirs (temp_dir a), FromPretrained (model_path a), LoadLLM (make_llm_config a),
        OpenRead (problem_file_of X (language a))] @
       map (\<lambda>p. ApplyChatTemplate [(''user'', p)]) prompts @
       [Generate rendered (make_sampling_params X tok), OpenWrite (output_path a),
        Evaluate (eval_call_of X (output_path a) (temp_dir a) (language a))]"
proof -
  from assms obtain tok llm examples rendered outputs recs res w1 w2 w3 w4 w5 w6 w7 w8 where
    s1: "makedirs (temp_dir a) w = (Inr (), w1)" and
    s2: "io_call (FromPretrained (model_path a)) (from_pretrained X (model_path a)) w1 = (Inr tok, w2)" and
    s3: "io_call (LoadLLM (make_llm_config a)) (LLM X (make_llm_config a)) w2 = (Inr llm, w3)" and
    s4: "load_examples X (problem_file_of X (language a)) w3 = (Inr examples, w4)" and
    s5: "io_mapM (render_example X tok (language a)) examples w4 = (Inr rendered, w5)" and
    s6: "io_call (Generate rendered (make_sampling_params X tok))
           (generate X llm rendered (make_sampling_params X tok)) w5 = (Inr outputs, w6)" and
    s7: "traverse (generated_example X (language a) examples) (enumerate 0 outputs) = Inr recs"
        "w7 = w6" and
    s8: "write_examples X (output_path a) recs w7 = (Inr (), w8)" and
    s9: "run_evaluation X (eval_call_of X (output_path a) (temp_dir a) (language a)) w8 = (Inr res, w')"
    unfolding generate_main_def Let_def io_bind_Inr io_return_Inr io_lift_Inr
    by auto
  from io_mapM_render_Inr [OF s5] obtain prompts where
    ps: "list_all2 (\<lambda>ex p. example_prompt X (language a) ex = Inr p) examples prompts"
      "list_all2 (\<lambda>p m. apply_chat_template X tok [(''user'', p)] = Inr m) prompts rendered"
      "w5 = w4\<lparr>trace := trace w4 @ map (\<lambda>p. ApplyChatTemplate [(''user'', p)]) prompts\<rparr>"
    by blast
  from s4 obtain content where
    c: "files w3 (resolve w3 (problem_file_of X (language a))) = Some content"
       "load_lines (json_loads X) (file_lines content) = Inr examples"
       "w4 = w3\<lparr>trace := trace w3 @ [OpenRead (problem_file_of X (language a))]\<rparr>"
    by (auto simp: load_examples_Inr)
  show ?thesis
    apply (rule exI [of _ tok], rule exI [of _ llm], rule exI [of _ content],
       rule exI [of _ examples], rule exI [of _ prompts], rule exI [of _ rendered],
       rule exI [of _ outputs], rule exI [of _ recs])
    using s1 s2 s3 c ps s6 s7 s8 s9
    by (simp add: makedirs_Inr io_call_Inr traverse_Inr write_examples_def write_text_Inr
        run_evaluation_Inr)
qed


lemma setitem_Inr_field:
  assumes "setitem e k v = Inr ex"
  shows "field ex k = Some v" and "k' \<noteq> k \<Longrightarrow> field ex k' = field e k'"
  using assms by (cases e; auto simp: update_conv')+

lemma generated_example_Inr:
  "generated_example X lang examples (i, out) = Inr r \<longleftrightarrow>
     (\<exists>text rest ex. out = text # rest \<and> i < length examples \<and>
        setitem (examples ! i) ''output'' (JStr text) = Inr ex \<and>
        extract_generation_code X ex lang = Inr r)"
  unfolding generated_example_def with_output_def
  by (cases out; cases "i < length examples";
      cases "setitem (examples ! i) ''output'' (JStr (hd out))") simp_all

lemma generated_examples_nth:
  assumes "list_all2 (\<lambda>p r. generated_example X lang examples p = Inr r) (enumerate 0 outputs) recs"
  shows "length recs = length outputs"
    and "i < length outputs \<Longrightarrow> generated_example X lang examples (i, outputs ! i) = Inr (recs ! i)"
  using assms by (auto simp: list_all2_conv_all_nth nth_enumerate_eq)

section \<open>Running the small instance\<close>

lemmas run_defs = generate_main_def evaluation_only_def main_def Let_def io_bind_def io_return_def
  io_lift_def io_call_def io_raise_def makedirs_def read_text_def write_text_def
  load_examples_def load_lines_def write_examples_def jsonl_def run_evaluation_def
  render_example_def example_prompt_def generated_example_def with_output_def
  eval_call_of_def problem_file_of_def make_sampling_params_def make_llm_config_def
  path_join_def basename_def file_lines_def assert_exists_def path_exists_def
  set_environ_def set_seed_def dirname_def parents_def

lemmas demo_defs = demo_externals_def demo_world_def demo_output_world_def default_args_def
  demo_loads_def demo_problems_def demo_extract_def demo_quote_def demo_escape_def
  demo_resolve_def norm_step_def

lemma demo_generate_main:
  "fst (generate_main demo_externals default_args demo_world) = Inr ()"
  by (simp add: run_defs demo_defs build_deepseekcoder_instruction_eq strip_def isspace_def)

lemma demo_generate_main_run:
  "generate_main demo_externals default_args demo_world =
     (Inr (), snd (generate_main demo_externals default_args demo_world))"
  using demo_generate_main by (metis prod.collapse)

lemma demo_aligned:
  "generate demo_externals llm ps sp = Inr outs \<Longrightarrow> length outs = length ps"
  by (auto simp: demo_externals_def)

section \<open>Records written by the generate and evaluate flow\<close>

lemma rendered_nth:
  assumes p: "list_all2 (\<lambda>ex p. example_prompt X lang ex = Inr p) examples prompts"
    and r: "list_all2 (\<lambda>p m. apply_chat_template X tok [(''user'', p)] = Inr m) prompts rendered"
  shows "length rendered = length examples"
    and "\<forall>i<length examples. \<exists>p.
          example_prompt X lang (examples ! i) = Inr p \<and>
          apply_chat_template X tok [(''user'', p)] = Inr (rendered ! i)"
proof -
  show n: "length rendered = length examples"
    using list_all2_lengthD [OF p] list_all2_lengthD [OF r] by simp
  show "\<forall>i<length examples. \<exists>p.
          example_prompt X lang (examples ! i) = Inr p \<and>
          apply_chat_template X tok [(''user'', p)] = Inr (rendered ! i)"
  proof (intro allI impI)
    fix i
    assume i: "i < length examples"
    then have "example_prompt X lang (examples ! i) = Inr (prompts ! i)"
      using p by (simp add: list_all2_conv_all_nth)
    moreover have "apply_chat_template X tok [(''user'', prompts ! i)] = Inr (rendered ! i)"
      using r i list_all2_lengthD [OF p] by (simp add: list_all2_conv_all_nth)
    ultimately show "\<exists>p. example_prompt X lang (examples ! i) = Inr p \<and>
          apply_chat_template X tok [(''user'', p)] = Inr (rendered ! i)"
      by blast
  qed
qed

text \<open>
  C2: in a run of the generate and evaluate flow that completes, with an engine that
  returns one output per prompt, the output file holds as many records as problems were
  loaded from the problem file, in the order of loading. The outputs are what the
  engine returned for the rendered prompts of the loaded problems, in their order, and
  the \<open>i\<close>-th record written is what the extractor returns for the \<open>i\<close>-th loaded
  problem with the text of the \<open>i\<close>-th output stored under \<^verbatim>\<open>output\<close>.
\<close>

theorem generate_main_count_and_order:
  assumes run: "generate_main X a w = (Inr u, w')"
    and aligned: "\<And>llm ps sp outs. generate X llm ps sp = Inr outs \<Longrightarrow> length outs = length ps"
  shows "\<exists>tok llm content examples rendered outputs recs.
      from_pretrained X (model_path a) = Inr tok \<and>
      LLM X (make_llm_config a) = Inr llm \<and>
      files w (resolve w (problem_file_of X (language a))) = Some content \<and>
      load_lines (json_loads X) (file_lines content) = Inr examples \<and>
      length rendered = length examples \<and>
      (\<forall>i<length examples. \<exists>p.
          example_prompt X (language a) (examples ! i) = Inr p \<and>
          apply_chat_template X tok [(''user'', p)] = Inr (rendered ! i)) \<and>
      generate X llm rendered (make_sampling_params X tok) = Inr outputs \<and>
      files w' (resolve w (output_path a)) = Some (jsonl (json_dumps X) recs) \<and>
      length recs = length examples \<and> length outputs = length examples \<and>
      (\<forall>i<length examples. \<exists>answer rest ex.
          outputs ! i = answer # rest \<and>
          setitem (examples ! i) ''output'' (JStr answer) = Inr ex \<and>
          extract_generation_code X ex (language a) = Inr (recs ! i))"
proof -
  from generate_main_Inr [OF run] obtain tok llm content examples prompts rendered outputs recs
    where t: "from_pretrained X (model_path a) = Inr tok"
      and m: "LLM X (make_llm_config a) = Inr llm"
      and c: "files w (resolve w (problem_file_of X (language a))) = Some content"
      and l: "load_lines (json_loads X) (file_lines content) = Inr examples"
      and p: "list_all2 (\<lambda>ex p. example_prompt X (language a) ex = Inr p) examples prompts"
      and r: "list_all2 (\<lambda>p m. apply_chat_template X tok [(''user'', p)] = Inr m) prompts rendered"
      and g: "generate X llm rendered (make_sampling_params X tok) = Inr outputs"
      and e: "list_all2 (\<lambda>p r. generated_example X (language a) examples p = Inr r)
                (enumerate 0 outputs) recs"
      and f: "files w' = (files w)(resolve w (output_path a) \<mapsto> jsonl (json_dumps X) recs)"
    by blast
  note rn = rendered_nth [OF p r]
  have n: "length outputs = length examples"
    using aligned [OF g] rn(1) by simp
  have k: "length recs = length examples"
    using generated_examples_nth(1) [OF e] n by simp
  have each: "\<forall>i<length examples. \<exists>answer rest ex.
          outputs ! i = answer # rest \<and>
          setitem (examples ! i) ''output'' (JStr answer) = Inr ex \<and>
          extract_generation_code X ex (language a) = Inr (recs ! i)"
  proof (intro allI impI)
    fix i
    assume "i < length examples"
    then have "generated_example X (language a) examples (i, outputs ! i) = Inr (recs ! i)"
      using generated_examples_nth(2) [OF e] n by simp
    then show "\<exists>answer rest ex.
          outputs ! i = answer # rest \<and>
          setitem (examples ! i) ''output'' (JStr answer) = Inr ex \<and>
          extract_generation_code X ex (language a) = Inr (recs ! i)"
      unfolding generated_example_Inr by blast
  qed
  have written: "files w' (resolve w (output_path a)) = Some (jsonl (json_dumps X) recs)"
    using f by simp
  from t m c l rn g written k n each show ?thesis
    by blast
qed

theorem generate_main_count_and_order_witness:
  "fst (generate_main demo_externals default_args demo_world) = Inr () \<and>
   (\<exists>tok llm content examples rendered outputs recs.
      from_pretrained demo_externals (model_path default_args) = Inr tok \<and>
      LLM demo_externals (make_llm_config default_args) = Inr llm \<and>
      files demo_world (resolve demo_world (problem_file_of demo_externals (language default_args)))
        = Some content \<and>
      load_lines (json_loads demo_externals) (file_lines content) = Inr examples \<and>
      length rendered = length examples \<and>
      (\<forall>i<length examples. \<exists>p.
          example_prompt demo_externals (language default_args) (examples ! i) = Inr p \<and>
          apply_chat_template demo_externals tok [(''user'', p)] = Inr (rendered ! i)) \<and>
      generate demo_externals llm rendered (make_sampling_params demo_externals tok)
        = Inr outputs \<and>
      files (snd (generate_main demo_externals default_args demo_world))
          (resolve demo_world (output_path default_args))
        = Some (jsonl (json_dumps demo_externals) recs) \<and>
      length recs = length examples \<and> length outputs = length examples \<and>
      (\<forall>i<length examples. \<exists>answer rest ex.
          outputs ! i = answer # rest \<and>
          setitem (examples ! i) ''output'' (JStr answer) = Inr ex \<and>
          extract_generation_code demo_externals ex (language default_args) = Inr (recs ! i)))"
  using demo_generate_main
    generate_main_count_and_order [OF demo_generate_main_run demo_aligned]
  by (rule conjI)

lemma filter_is_generate_map_template:
  "filter is_generate (map (\<lambda>p. ApplyChatTemplate [(''user'', p)]) ps) = []"
  by (induction ps) simp_all

text \<open>
  C6: in a run of the generate and evaluate flow that completes, the engine is called
  once; the call carries all the rendered prompts, one for each loaded problem in order,
  with temperature 0, top-p 0.95, at most 1024 output tokens and the tokenizer's
  end-of-sequence token as the one stop token; and for each output the first
  completion's text, and no other, is stored under \<^verbatim>\<open>output\<close> in the record.
\<close>

theorem generate_main_single_batch:
  assumes run: "generate_main X a w = (Inr u, w')"
  shows "\<exists>tok llm content examples rendered outputs recs.
      from_pretrained X (model_path a) = Inr tok \<and>
      LLM X (make_llm_config a) = Inr llm \<and>
      files w (resolve w (problem_file_of X (language a))) = Some content \<and>
      load_lines (json_loads X) (file_lines content) = Inr examples \<and>
      length rendered = length examples \<and>
      (\<forall>i<length examples. \<exists>p.
          example_prompt X (language a) (examples ! i) = Inr p \<and>
          apply_chat_template X tok [(''user'', p)] = Inr (rendered ! i)) \<and>
      filter is_generate (drop (length (trace w)) (trace w')) =
        [Generate rendered
           \<lparr>temperature = 0, max_tokens = 1024, top_p = 95 / 100,
            stop_token_ids = [eos_token_id X tok]\<rparr>] \<and>
      generate X llm rendered
        \<lparr>temperature = 0, max_tokens = 1024, top_p = 95 / 100,
         stop_token_ids = [eos_token_id X tok]\<rparr> = Inr outputs \<and>
      files w' (resolve w (output_path a)) = Some (jsonl (json_dumps X) recs) \<and>
      length recs = length outputs \<and>
      (\<forall>i<length outputs. \<exists>text rest ex.
          outputs ! i = text # rest \<and>
          setitem (examples ! i) ''output'' (JStr text) = Inr ex \<and>
          field ex ''output'' = Some (JStr text) \<and>
          extract_generation_code X ex (language a) = Inr (recs ! i))"
proof -
  from generate_main_Inr [OF run] obtain tok llm content examples prompts rendered outputs recs
    where t: "from_pretrained X (model_path a) = Inr tok"
      and m: "LLM X (make_llm_config a) = Inr llm"
      and c: "files w (resolve w (problem_file_of X (language a))) = Some content"
      and l: "load_lines (json_loads X) (file_lines content) = Inr examples"
      and p: "list_all2 (\<lambda>ex p. example_prompt X (language a) ex = Inr p) examples prompts"
      and r: "list_all2 (\<lambda>p m. apply_chat_template X tok [(''user'', p)] = Inr m) prompts rendered"
      and g: "generate X llm rendered (make_sampling_params X tok) = Inr outputs"
      and e: "list_all2 (\<lambda>p r. generated_example X (language a) examples p = Inr r)
                (enumerate 0 outputs) recs"
      and f: "files w' = (files w)(resolve w (output_path a) \<mapsto> jsonl (json_dumps X) recs)"
      and tr: "trace w' = trace w @
         [Makedirs (temp_dir a), FromPretrained (model_path a), LoadLLM (make_llm_config a),
          OpenRead (problem_file_of X (language a))] @
         map (\<lambda>p. ApplyChatTemplate [(''user'', p)]) prompts @
         [Generate rendered (make_sampling_params X tok), OpenWrite (output_path a),
          Evaluate (eval_call_of X (output_path a) (temp_dir a) (language a))]"
    by blast
  let ?sp = "\<lparr>temperature = 0, max_tokens = 1024, top_p = 95 / 100,
             stop_token_ids = [eos_token_id X tok]\<rparr>"
  have sp: "make_sampling_params X tok = ?sp"
    by (simp add: make_sampling_params_def)
  have n: "length rendered = length examples"
    using list_all2_lengthD [OF p] list_all2_lengthD [OF r] by simp
  have each_prompt: "\<forall>i<length examples. \<exists>p.
          example_prompt X (language a) (examples ! i) = Inr p \<and>
          apply_chat_template X tok [(''user'', p)] = Inr (rendered ! i)"
  proof (intro allI impI)
    fix i
    assume i: "i < length examples"
    then have "example_prompt X (language a) (examples ! i) = Inr (prompts ! i)"
      using p by (simp add: list_all2_conv_all_nth)
    moreover have "apply_chat_template X tok [(''user'', prompts ! i)] = Inr (rendered ! i)"
      using r i list_all2_lengthD [OF p] by (simp add: list_all2_conv_all_nth)
    ultimately show "\<exists>p. example_prompt X (language a) (examples ! i) = Inr p \<and>
          apply_chat_template X tok [(''user'', p)] = Inr (rendered ! i)"
      by blast
  qed
  have calls: "filter is_generate (drop (length (trace w)) (trace w')) = [Generate rendered ?sp]"
    unfolding tr sp by (simp add: filter_is_generate_map_template)
  have each_output: "\<forall>i<length outputs. \<exists>text rest ex.
          outputs ! i = text # rest \<and>
          setitem (examples ! i) ''output'' (JStr text) = Inr ex \<and>
          field ex ''output'' = Some (JStr text) \<and>
          extract_generation_code X ex (language a) = Inr (recs ! i)"
  proof (intro allI impI)
    fix i
    assume "i < length outputs"
    then have "generated_example X (language a) examples (i, outputs ! i) = Inr (recs ! i)"
      using generated_examples_nth(2) [OF e] by simp
    then obtain answer rest ex where
        ot: "outputs ! i = answer # rest" and
        s: "setitem (examples ! i) ''output'' (JStr answer) = Inr ex" and
        x: "extract_generation_code X ex (language a) = Inr (recs ! i)"
      unfolding generated_example_Inr by blast
    from setitem_Inr_field(1) [OF s] ot s x
    show "\<exists>text rest ex.
          outputs ! i = text # rest \<and>
          setitem (examples ! i) ''output'' (JStr text) = Inr ex \<and>
          field ex ''output'' = Some (JStr text) \<and>
          extract_generation_code X ex (language a) = Inr (recs ! i)"
      by blast
  qed
  have written: "files w' (resolve w (output_path a)) = Some (jsonl (json_dumps X) recs)"
    using f by simp
  from t m c l n each_prompt calls g [unfolded sp] written generated_examples_nth(1) [OF e] each_output
  show ?thesis
    by blast
qed

theorem generate_main_single_batch_witness:
  "fst (generate_main demo_externals default_args demo_world) = Inr () \<and>
   (\<exists>tok llm content examples rendered outputs recs.
      from_pretrained demo_externals (model_path default_args) = Inr tok \<and>
      LLM demo_externals (make_llm_config default_args) = Inr llm \<and>
      files demo_world (resolve demo_world (problem_file_of demo_externals (language default_args)))
        = Some content \<and>
      load_lines (json_loads demo_externals) (file_lines content) = Inr examples \<and>
      length rendered = length examples \<and>
      (\<forall>i<length examples. \<exists>p.
          example_prompt demo_externals (language default_args) (examples ! i) = Inr p \<and>
          apply_chat_template demo_externals tok [(''user'', p)] = Inr (rendered ! i)) \<and>
      filter is_generate (drop (length (trace demo_world))
          (trace (snd (generate_main demo_externals default_args demo_world)))) =
        [Generate rendered
           \<lparr>temperature = 0, max_tokens = 1024, top_p = 95 / 100,
            stop_token_ids = [eos_token_id demo_externals tok]\<rparr>] \<and>
      generate demo_externals llm rendered
        \<lparr>temperature = 0, max_tokens = 1024, top_p = 95 / 100,
         stop_token_ids = [eos_token_id demo_externals tok]\<rparr> = Inr outputs \<and>
      files (snd (generate_main demo_externals default_args demo_world))
          (resolve demo_world (output_path default_args))
        = Some (jsonl (json_dumps demo_externals) recs) \<and>
      length recs = length outputs \<and>
      (\<forall>i<length outputs. \<exists>text rest ex.
          outputs ! i = text # rest \<and>
          setitem (examples ! i) ''output'' (JStr text) = Inr ex \<and>
          field ex ''output'' = Some (JStr text) \<and>
          extract_generation_code demo_externals ex (language default_args) = Inr (recs ! i)))"
  using demo_generate_main generate_main_single_batch [OF demo_generate_main_run]
  by (rule conjI)

text \<open>
  C7: in a run of the generate and evaluate flow that completes, the outputs are what
  the engine returned for the rendered prompts, and every record written is what the
  extractor returns for the loaded object of the same index after \<^verbatim>\<open>output\<close> was set
  to the first text of the output of that index: the object handed to the extractor
  holds the raw text of the model under \<^verbatim>\<open>output\<close> and, under every other key, what
  the loaded object holds. Let \<open>K\<close> be any set of keys such that
  the extractor adds or sets no field outside \<open>K\<close>. Then every field of the written
  record outside \<open>K\<close>, but \<^verbatim>\<open>output\<close>, has the value it had in the loaded object (it
  is absent if it was absent), and when \<^verbatim>\<open>output\<close> is not in \<open>K\<close> the written record
  holds the raw text of the model under \<^verbatim>\<open>output\<close>.
\<close>

theorem generate_main_record_frame:
  assumes run: "generate_main X a w = (Inr u, w')"
    and frame: "\<And>ex r k. extract_generation_code X ex (language a) = Inr r \<Longrightarrow> k \<notin> K \<Longrightarrow>
                  field r k = field ex k"
  shows "\<exists>tok llm content examples rendered outputs recs.
      from_pretrained X (model_path a) = Inr tok \<and>
      LLM X (make_llm_config a) = Inr llm \<and>
      files w (resolve w (problem_file_of X (language a))) = Some content \<and>
      load_lines (json_loads X) (file_lines content) = Inr examples \<and>
      length rendered = length examples \<and>
      (\<forall>i<length examples. \<exists>p.
          example_prompt X (language a) (examples ! i) = Inr p \<and>
          apply_chat_template X tok [(''user'', p)] = Inr (rendered ! i)) \<and>
      generate X llm rendered (make_sampling_params X tok) = Inr outputs \<and>
      files w' (resolve w (output_path a)) = Some (jsonl (json_dumps X) recs) \<and>
      length recs = length outputs \<and>
      (\<forall>i<length recs. \<exists>answer rest ex.
          i < length examples \<and>
          outputs ! i = answer # rest \<and>
          setitem (examples ! i) ''output'' (JStr answer) = Inr ex \<and>
          extract_generation_code X ex (language a) = Inr (recs ! i) \<and>
          field ex ''output'' = Some (JStr answer) \<and>
          (\<forall>k. k \<noteq> ''output'' \<longrightarrow> field ex k = field (examples ! i) k) \<and>
          (''output'' \<notin> K \<longrightarrow> field (recs ! i) ''output'' = Some (JStr answer)) \<and>
          (\<forall>k. k \<notin> K \<and> k \<noteq> ''output'' \<longrightarrow> field (recs ! i) k = field (examples ! i) k))"
proof -
  from generate_main_Inr [OF run] obtain tok llm content examples prompts rendered outputs recs
    where t: "from_pretrained X (model_path a) = Inr tok"
      and m: "LLM X (make_llm_config a) = Inr llm"
      and c: "files w (resolve w (problem_file_of X (language a))) = Some content"
      and l: "load_lines (json_loads X) (file_lines content) = Inr examples"
      and p: "list_all2 (\<lambda>ex p. example_prompt X (language a) ex = Inr p) examples prompts"
      and r: "list_all2 (\<lambda>p m. apply_chat_template X tok [(''user'', p)] = Inr m) prompts rendered"
      and g: "generate X llm rendered (make_sampling_params X tok) = Inr outputs"
      and e: "list_all2 (\<lambda>p r. generated_example X (language a) examples p = Inr r)
                (enumerate 0 outputs) recs"
      and f: "files w' = (files w)(resolve w (output_path a) \<mapsto> jsonl (json_dumps X) recs)"
    by blast
  note rn = rendered_nth [OF p r]
  have n: "length recs = length outputs"
    by (rule generated_examples_nth(1) [OF e])
  have each: "\<forall>i<length recs. \<exists>answer rest ex.
          i < length examples \<and>
          outputs ! i = answer # rest \<and>
          setitem (examples ! i) ''output'' (JStr answer) = Inr ex \<and>
          extract_generation_code X ex (language a) = Inr (recs ! i) \<and>
          field ex ''output'' = Some (JStr answer) \<and>
          (\<forall>k. k \<noteq> ''output'' \<longrightarrow> field ex k = field (examples ! i) k) \<and>
          (''output'' \<notin> K \<longrightarrow> field (recs ! i) ''output'' = Some (JStr answer)) \<and>
          (\<forall>k. k \<notin> K \<and> k \<noteq> ''output'' \<longrightarrow> field (recs ! i) k = field (examples ! i) k)"
  proof (intro allI impI)
    fix i
    assume "i < length recs"
    then have "generated_example X (language a) examples (i, outputs ! i) = Inr (recs ! i)"
      using generated_examples_nth(2) [OF e] n by simp
    then obtain answer rest ex where
        b: "i < length examples" and
        ot: "outputs ! i = answer # rest" and
        s: "setitem (examples ! i) ''output'' (JStr answer) = Inr ex" and
        x: "extract_generation_code X ex (language a) = Inr (recs ! i)"
      unfolding generated_example_Inr by blast
    have raw: "''output'' \<notin> K \<longrightarrow> field (recs ! i) ''output'' = Some (JStr answer)"
    proof
      assume "''output'' \<notin> K"
      from frame [OF x this] setitem_Inr_field(1) [OF s]
      show "field (recs ! i) ''output'' = Some (JStr answer)"
        by simp
    qed
    have same: "\<forall>k. k \<notin> K \<and> k \<noteq> ''output'' \<longrightarrow> field (recs ! i) k = field (examples ! i) k"
    proof (intro allI impI, elim conjE)
      fix k
      assume k: "k \<notin> K" "k \<noteq> ''output''"
      from frame [OF x k(1)] setitem_Inr_field(2) [OF s k(2)]
      show "field (recs ! i) k = field (examples ! i) k"
        by simp
    qed
    have given: "field ex ''output'' = Some (JStr answer)"
      by (rule setitem_Inr_field(1) [OF s])
    have kept: "\<forall>k. k \<noteq> ''output'' \<longrightarrow> field ex k = field (examples ! i) k"
      using setitem_Inr_field(2) [OF s] by simp
    from b ot s x given kept raw same
    show "\<exists>answer rest ex.
          i < length examples \<and>
          outputs ! i = answer # rest \<and>
          setitem (examples ! i) ''output'' (JStr answer) = Inr ex \<and>
          extract_generation_code X ex (language a) = Inr (recs ! i) \<and>
          field ex ''output'' = Some (JStr answer) \<and>
          (\<forall>k. k \<noteq> ''output'' \<longrightarrow> field ex k = field (examples ! i) k) \<and>
          (''output'' \<notin> K \<longrightarrow> field (recs ! i) ''output'' = Some (JStr answer)) \<and>
          (\<forall>k. k \<notin> K \<and> k \<noteq> ''output'' \<longrightarrow> field (recs ! i) k = field (examples ! i) k)"
      by blast
  qed
  have written: "files w' (resolve w (output_path a)) = Some (jsonl (json_dumps X) recs)"
    using f by simp
  from t m c l rn g written n each show ?thesis
    by blast
qed

lemma demo_extract_frame:
  assumes "extract_generation_code demo_externals ex lang = Inr r" and "k \<notin> {''generation''}"
  shows "field r k = field ex k"
proof -
  from assms(1) have d: "demo_extract ex lang = Inr r"
    by (simp add: demo_externals_def)
  then obtain v where s: "setitem ex ''generation'' v = Inr r"
    unfolding demo_extract_def
    by (cases "getitem ex ''output''"; simp split: json.splits)
  from assms(2) have "k \<noteq> ''generation''"
    by simp
  then show ?thesis
    by (rule setitem_Inr_field(2) [OF s])
qed

theorem generate_main_record_frame_witness:
  "fst (generate_main demo_externals default_args demo_world) = Inr () \<and>
   ''output'' \<notin> {''generation''} \<and>
   (\<exists>tok llm content examples rendered outputs recs.
      from_pretrained demo_externals (model_path default_args) = Inr tok \<and>
      LLM demo_externals (make_llm_config default_args) = Inr llm \<and>
      files demo_world (resolve demo_world (problem_file_of demo_externals (language default_args)))
        = Some content \<and>
      load_lines (json_loads demo_externals) (file_lines content) = Inr examples \<and>
      length rendered = length examples \<and>
      (\<forall>i<length examples. \<exists>p.
          example_prompt demo_externals (language default_args) (examples ! i) = Inr p \<and>
          apply_chat_template demo_externals tok [(''user'', p)] = Inr (rendered ! i)) \<and>
      generate demo_externals llm rendered (make_sampling_params demo_externals tok)
        = Inr outputs \<and>
      files (snd (generate_main demo_externals default_args demo_world))
          (resolve demo_world (output_path default_args))
        = Some (jsonl (json_dumps demo_externals) recs) \<and>
      length recs = length outputs \<and>
      (\<forall>i<length recs. \<exists>answer rest ex.
          i < length examples \<and>
          outputs ! i = answer # rest \<and>
          setitem (examples ! i) ''output'' (JStr answer) = Inr ex \<and>
          extract_generation_code demo_externals ex (language default_args) = Inr (recs ! i) \<and>
          field ex ''output'' = Some (JStr answer) \<and>
          (\<forall>k. k \<noteq> ''output'' \<longrightarrow> field ex k = field (examples ! i) k) \<and>
          (''output'' \<notin> {''generation''} \<longrightarrow>
             field (recs ! i) ''output'' = Some (JStr answer)) \<and>
          (\<forall>k. k \<notin> {''generation''} \<and> k \<noteq> ''output'' \<longrightarrow>
             field (recs ! i) k = field (examples ! i) k)))"
proof -
  have "''output'' \<notin> {''generation''}"
    by simp
  with demo_generate_main
    generate_main_record_frame [where K = "{''generation''}",
      OF demo_generate_main_run demo_extract_frame]
  show ?thesis
    by (intro conjI)
qed

section \<open>What a flow may do, whatever its outcome\<close>

lemma effectsI:
  assumes "\<And>w. \<exists>evs. trace (snd (m w)) = trace w @ evs \<and> list_all ok evs"
    and "\<And>w q. \<not> may_write (resolve w) q \<Longrightarrow> files (snd (m w)) q = files w q"
    and "\<And>w. environ (snd (m w)) = environ w"
    and "\<And>w. rng_seed (snd (m w)) = rng_seed w"
    and "\<And>w. resolve (snd (m w)) = resolve w"
  shows "effects ok may_write m"
  unfolding effects_def using assms by blast

lemma effectsD:
  assumes "effects ok may_write m"
  shows "\<exists>evs. trace (snd (m w)) = trace w @ evs \<and> list_all ok evs"
    and "\<not> may_write (resolve w) q \<Longrightarrow> files (snd (m w)) q = files w q"
    and "environ (snd (m w)) = environ w"
    and "rng_seed (snd (m w)) = rng_seed w"
    and "resolve (snd (m w)) = resolve w"
  using assms unfolding effects_def by blast+

lemma effects_return: "effects ok may_write (io_return x)"
  by (rule effectsI) (simp_all add: io_return_def)

lemma effects_raise: "effects ok may_write (io_raise e)"
  by (rule effectsI) (simp_all add: io_raise_def)

lemma effects_lift: "effects ok may_write (io_lift r)"
  by (rule effectsI) (simp_all add: io_lift_def)

lemma effects_call: "ok ev \<Longrightarrow> effects ok may_write (io_call ev r)"
  by (rule effectsI) (simp_all add: io_call_def)

lemma effects_bind:
  assumes m: "effects ok may_write m" and f: "\<And>x. effects ok may_write (f x)"
  shows "effects ok may_write (io_bind m f)"
proof (rule effectsI)
  fix w
  obtain r w1 where mw: "m w = (r, w1)"
    by (cases "m w")
  from effectsD(1) [OF m, of w] mw obtain evs1 where
    e1: "trace w1 = trace w @ evs1" "list_all ok evs1"
    by auto
  have rs: "resolve w1 = resolve w"
    using effectsD(5) [OF m, of w] mw by simp
  show "\<exists>evs. trace (snd (io_bind m f w)) = trace w @ evs \<and> list_all ok evs"
  proof (cases r)
    case (Inl e)
    then show ?thesis
      using mw e1 by (simp add: io_bind_def)
  next
    case (Inr x)
    from effectsD(1) [OF f, of x w1] obtain evs2 where
      e2: "trace (snd (f x w1)) = trace w1 @ evs2" "list_all ok evs2"
      by auto
    have "trace (snd (io_bind m f w)) = trace w @ (evs1 @ evs2)"
      using mw Inr e1 e2 by (simp add: io_bind_def)
    moreover have "list_all ok (evs1 @ evs2)"
      using e1 e2 by simp
    ultimately show ?thesis
      by blast
  qed
  show "environ (snd (io_bind m f w)) = environ w"
    using effectsD(3) [OF m, of w] effectsD(3) [OF f, of _ w1] mw
    by (cases r) (simp_all add: io_bind_def)
  show "rng_seed (snd (io_bind m f w)) = rng_seed w"
    using effectsD(4) [OF m, of w] effectsD(4) [OF f, of _ w1] mw
    by (cases r) (simp_all add: io_bind_def)
  show "resolve (snd (io_bind m f w)) = resolve w"
    using rs effectsD(5) [OF f, of _ w1] mw
    by (cases r) (simp_all add: io_bind_def)
  fix q
  assume "\<not> may_write (resolve w) q"
  then show "files (snd (io_bind m f w)) q = files w q"
    using effectsD(2) [OF m, of w q] effectsD(2) [OF f, of w1 q] mw rs
    by (cases r) (simp_all add: io_bind_def)
qed

lemma effects_mapM:
  assumes "\<And>x. effects ok may_write (f x)"
  shows "effects ok may_write (io_mapM f xs)"
  by (induction xs) (simp_all add: effects_return effects_bind assms)

lemma effects_makedirs: "ok (Makedirs p) \<Longrightarrow> effects ok may_write (makedirs p)"
  by (rule effectsI) (auto simp: makedirs_def Let_def)

lemma effects_read_text: "ok (OpenRead p) \<Longrightarrow> effects ok may_write (read_text p)"
  by (rule effectsI) (auto simp: read_text_def Let_def split: option.splits)

lemma effects_write_text:
  "ok (OpenWrite p) \<Longrightarrow> (\<And>rs. may_write rs (rs p)) \<Longrightarrow> effects ok may_write (write_text p c)"
  by (rule effectsI) (auto simp: write_text_def Let_def)

lemma effects_run_evaluation:
  "ok (Evaluate c) \<Longrightarrow> effects ok may_write (run_evaluation X c)"
  by (rule effectsI) (simp_all add: run_evaluation_def)

lemma effects_load_examples:
  "ok (OpenRead p) \<Longrightarrow> effects ok may_write (load_examples X p)"
  unfolding load_examples_def
  by (intro effects_bind effects_read_text effects_lift)

lemma effects_assert_exists: "effects ok may_write (assert_exists p)"
  by (rule effectsI) (simp_all add: assert_exists_def)

lemma effects_render_example:
  "(\<And>m. ok (ApplyChatTemplate m)) \<Longrightarrow> effects ok may_write (render_example X tok lang ex)"
  unfolding render_example_def Let_def
  by (intro effects_bind effects_lift effects_call)

lemma effects_generate_main:
  "effects (\<lambda>e. True) (\<lambda>rs q. q = rs (output_path a)) (generate_main X a)"
  unfolding generate_main_def Let_def write_examples_def
  by (intro effects_bind effects_makedirs effects_call effects_load_examples effects_mapM
      effects_render_example effects_lift effects_write_text effects_run_evaluation
      effects_return) simp_all

lemma effects_evaluation_only:
  "effects (touches_only (processed_path_of a)) (\<lambda>rs q. q = rs (processed_path_of a))
     (evaluation_only X a)"
  unfolding evaluation_only_def Let_def write_examples_def processed_path_of_def
  by (intro effects_bind effects_assert_exists effects_makedirs effects_load_examples
      effects_lift effects_write_text effects_run_evaluation effects_return)
    (simp_all add: eval_call_of_def)

lemma makedirs_first:
  assumes "\<And>x. effects ok may_write (f x)"
  shows "\<exists>evs. trace (snd (io_bind (makedirs p) f w)) = trace w @ Makedirs p # evs"
proof -
  obtain r w1 where mw: "makedirs p w = (r, w1)"
    by (cases "makedirs p w")
  then have t: "trace w1 = trace w @ [Makedirs p]"
    by (auto simp: makedirs_def Let_def split: if_splits)
  show ?thesis
  proof (cases r)
    case (Inl e)
    then show ?thesis
      using mw t by (simp add: io_bind_def)
  next
    case (Inr x)
    from effectsD(1) [OF assms, of x w1] obtain evs where
      "trace (snd (f x w1)) = trace w1 @ evs"
      by auto
    then show ?thesis
      using mw Inr t by (simp add: io_bind_def)
  qed
qed

section \<open>The entry point and the existence check\<close>

lemma generate_main_makedirs_first:
  "\<exists>evs. trace (snd (generate_main X a w)) = trace w @ Makedirs (temp_dir a) # evs"
  unfolding generate_main_def Let_def write_examples_def
  by (rule makedirs_first [where ok = "\<lambda>e. True" and may_write = "\<lambda>rs p. True"])
    (intro effects_bind effects_call effects_load_examples effects_mapM
      effects_render_example effects_lift effects_write_text effects_run_evaluation
      effects_return, simp_all)

lemma main_eq:
  "main X a w =
     generate_main X a
       (w\<lparr>environ := (environ w)(''TOKENIZERS_PARALLELISM'' \<mapsto> ''false''),
          rng_seed := Some (seed a),
          trace := trace w @ [SetEnviron ''TOKENIZERS_PARALLELISM'' ''false'', SetSeed (seed a)]\<rparr>)"
  by (simp add: main_def io_bind_def set_environ_def set_seed_def)

text \<open>
  C3: for every argument set the entry point is the generate and evaluate flow, run
  after the environment flag and the seed are set: no argument selects another flow.
  Whatever the arguments and the world (the output file may exist or not), the run's
  first call after the two settings is that flow's \<^verbatim>\<open>os.makedirs\<close>; the
  evaluate-only flow, which starts with its existence check, is not what runs.
\<close>

theorem main_runs_generate_main:
  "main X a w =
     generate_main X a
       (w\<lparr>environ := (environ w)(''TOKENIZERS_PARALLELISM'' \<mapsto> ''false''),
          rng_seed := Some (seed a),
          trace := trace w @ [SetEnviron ''TOKENIZERS_PARALLELISM'' ''false'', SetSeed (seed a)]\<rparr>)
   \<and> (\<exists>evs. trace (snd (main X a w)) =
          trace w @ [SetEnviron ''TOKENIZERS_PARALLELISM'' ''false'', SetSeed (seed a),
                     Makedirs (temp_dir a)] @ evs)"
proof -
  let ?w1 = "w\<lparr>environ := (environ w)(''TOKENIZERS_PARALLELISM'' \<mapsto> ''false''),
          rng_seed := Some (seed a),
          trace := trace w @ [SetEnviron ''TOKENIZERS_PARALLELISM'' ''false'', SetSeed (seed a)]\<rparr>"
  from generate_main_makedirs_first [of X a ?w1]
  obtain evs where "trace (snd (generate_main X a ?w1)) = trace ?w1 @ Makedirs (temp_dir a) # evs"
    by blast
  then have "trace (snd (main X a w)) =
      trace w @ [SetEnviron ''TOKENIZERS_PARALLELISM'' ''false'', SetSeed (seed a),
                 Makedirs (temp_dir a)] @ evs"
    by (simp add: main_eq)
  then show ?thesis
    using main_eq [of X a w] by blast
qed

theorem main_runs_generate_main_witness:
  "main demo_externals default_args demo_world =
     generate_main demo_externals default_args
       (demo_world\<lparr>environ := (environ demo_world)(''TOKENIZERS_PARALLELISM'' \<mapsto> ''false''),
          rng_seed := Some (seed default_args),
          trace := trace demo_world @
            [SetEnviron ''TOKENIZERS_PARALLELISM'' ''false'', SetSeed (seed default_args)]\<rparr>)
   \<and> (\<exists>evs. trace (snd (main demo_externals default_args demo_world)) =
          trace demo_world @ [SetEnviron ''TOKENIZERS_PARALLELISM'' ''false'',
             SetSeed (seed default_args), Makedirs (temp_dir default_args)] @ evs)"
  by (rule main_runs_generate_main)

lemma assert_exists_bind:
  "io_bind (assert_exists p) f w =
     (if path_exists w p then f () w
      else (Inl (AssertionError (''Not fond output file: '' @ p)), w))"
  by (simp add: io_bind_def assert_exists_def)

lemma evaluation_only_makedirs_first:
  assumes "path_exists w (output_path a)"
  shows "\<exists>evs. trace (snd (evaluation_only X a w)) = trace w @ Makedirs (temp_dir a) # evs"
  unfolding evaluation_only_def Let_def assert_exists_bind write_examples_def
  using assms
  apply (simp only: if_True)
  apply (rule makedirs_first [where ok = "\<lambda>e. True" and may_write = "\<lambda>rs p. True"])
  apply (intro effects_bind effects_load_examples effects_lift effects_write_text
      effects_run_evaluation effects_return)
     apply simp_all
  done

text \<open>
  C4: in the evaluate-only flow, when nothing exists at the output path the run ends
  with an assertion error whose message names the path, and the world is as it was: no
  directory was made, no file opened, no call recorded. When the path exists the
  assertion passes and the flow goes on to make the temporary directory.
\<close>

theorem evaluation_only_asserts_output_exists:
  "(\<not> path_exists w (output_path a) \<longrightarrow>
      evaluation_only X a w =
        (Inl (AssertionError (''Not fond output file: '' @ output_path a)), w))
   \<and> (path_exists w (output_path a) \<longrightarrow>
      (\<exists>evs. trace (snd (evaluation_only X a w)) = trace w @ Makedirs (temp_dir a) # evs))"
proof (intro conjI impI)
  assume "\<not> path_exists w (output_path a)"
  then show "evaluation_only X a w =
        (Inl (AssertionError (''Not fond output file: '' @ output_path a)), w)"
    by (simp add: evaluation_only_def Let_def assert_exists_bind)
next
  assume "path_exists w (output_path a)"
  then show "\<exists>evs. trace (snd (evaluation_only X a w)) = trace w @ Makedirs (temp_dir a) # evs"
    by (rule evaluation_only_makedirs_first)
qed

lemma demo_no_output: "\<not> path_exists demo_world (output_path default_args)"
  by (simp add: path_exists_def demo_world_def default_args_def demo_resolve_def norm_step_def)

lemma demo_has_output:
  "path_exists (demo_output_world ''outputs/qwen2-sft.json'') (output_path default_args)"
  by (simp add: path_exists_def demo_output_world_def default_args_def)

theorem evaluation_only_asserts_output_exists_witness:
  "\<not> path_exists demo_world (output_path default_args)
   \<and> evaluation_only demo_externals default_args demo_world =
        (Inl (AssertionError (''Not fond output file: '' @ output_path default_args)), demo_world)
   \<and> path_exists (demo_output_world ''outputs/qwen2-sft.json'') (output_path default_args)
   \<and> (\<exists>evs. trace (snd (evaluation_only demo_externals default_args
                  (demo_output_world ''outputs/qwen2-sft.json''))) =
          trace (demo_output_world ''outputs/qwen2-sft.json'') @
            Makedirs (temp_dir default_args) # evs)"
  using demo_no_output demo_has_output
    evaluation_only_asserts_output_exists [of demo_world default_args demo_externals]
    evaluation_only_asserts_output_exists
      [of "demo_output_world ''outputs/qwen2-sft.json''" default_args demo_externals]
  by (simp only: simp_thms)

section \<open>Setup before the tokenizer\<close>

text \<open>
  C9: in every run of the entry point, whatever its outcome, the run's first two calls
  set \<^verbatim>\<open>TOKENIZERS_PARALLELISM\<close> to \<^verbatim>\<open>false\<close> and apply the seed; the flow that loads
  and uses the tokenizer starts in a world where both are in place, and neither is
  changed afterwards. So every call of the run that loads or uses the tokenizer comes
  strictly after both.
\<close>

theorem main_setup_before_tokenizer:
  assumes run: "main X a w = (r, w')"
  shows "(\<exists>evs. trace w' =
            trace w @ SetEnviron ''TOKENIZERS_PARALLELISM'' ''false'' # SetSeed (seed a) # evs)
     \<and> (\<exists>w1. environ w1 ''TOKENIZERS_PARALLELISM'' = Some ''false'' \<and>
            rng_seed w1 = Some (seed a) \<and> generate_main X a w1 = (r, w'))
     \<and> environ w' ''TOKENIZERS_PARALLELISM'' = Some ''false''
     \<and> rng_seed w' = Some (seed a)
     \<and> (\<forall>i. length (trace w) \<le> i \<and> i < length (trace w') \<and>
            is_tokenizer_event (trace w' ! i) \<longrightarrow>
          length (trace w) + 2 \<le> i \<and>
          trace w' ! length (trace w) = SetEnviron ''TOKENIZERS_PARALLELISM'' ''false'' \<and>
          trace w' ! (length (trace w) + 1) = SetSeed (seed a))"
proof -
  let ?w1 = "w\<lparr>environ := (environ w)(''TOKENIZERS_PARALLELISM'' \<mapsto> ''false''),
          rng_seed := Some (seed a),
          trace := trace w @ [SetEnviron ''TOKENIZERS_PARALLELISM'' ''false'', SetSeed (seed a)]\<rparr>"
  have g: "generate_main X a ?w1 = (r, w')"
    using run by (simp add: main_eq)
  then have w': "w' = snd (generate_main X a ?w1)"
    by simp
  from effectsD(1) [OF effects_generate_main, of X a ?w1] obtain evs where
    "trace w' = trace ?w1 @ evs"
    unfolding w' by blast
  then have tr: "trace w' =
      trace w @ SetEnviron ''TOKENIZERS_PARALLELISM'' ''false'' # SetSeed (seed a) # evs"
    by simp
  have env: "environ w' ''TOKENIZERS_PARALLELISM'' = Some ''false''"
    unfolding w' effectsD(3) [OF effects_generate_main] by simp
  have sd: "rng_seed w' = Some (seed a)"
    unfolding w' effectsD(4) [OF effects_generate_main] by simp
  have start: "\<exists>w1. environ w1 ''TOKENIZERS_PARALLELISM'' = Some ''false'' \<and>
            rng_seed w1 = Some (seed a) \<and> generate_main X a w1 = (r, w')"
    by (rule exI [of _ ?w1]) (simp add: g)
  have at0: "trace w' ! length (trace w) = SetEnviron ''TOKENIZERS_PARALLELISM'' ''false''"
    unfolding tr by (simp add: nth_append)
  have at1: "trace w' ! (length (trace w) + 1) = SetSeed (seed a)"
    unfolding tr by (simp add: nth_append)
  have order: "\<forall>i. length (trace w) \<le> i \<and> i < length (trace w') \<and>
            is_tokenizer_event (trace w' ! i) \<longrightarrow>
          length (trace w) + 2 \<le> i \<and>
          trace w' ! length (trace w) = SetEnviron ''TOKENIZERS_PARALLELISM'' ''false'' \<and>
          trace w' ! (length (trace w) + 1) = SetSeed (seed a)"
  proof (intro allI impI, elim conjE)
    fix i
    assume lo: "length (trace w) \<le> i" and tok: "is_tokenizer_event (trace w' ! i)"
    have "i \<noteq> length (trace w)"
      using tok at0 by auto
    moreover have "i \<noteq> length (trace w) + 1"
      using tok at1 by auto
    ultimately have "length (trace w) + 2 \<le> i"
      using lo by arith
    with at0 at1 show "length (trace w) + 2 \<le> i \<and>
          trace w' ! length (trace w) = SetEnviron ''TOKENIZERS_PARALLELISM'' ''false'' \<and>
          trace w' ! (length (trace w) + 1) = SetSeed (seed a)"
      by (simp only: simp_thms)
  qed
  from tr start env sd order show ?thesis
    by blast
qed

lemma demo_main_tokenizer_event:
  "3 < length (trace (snd (main demo_externals default_args demo_world))) \<and>
   trace (snd (main demo_externals default_args demo_world)) ! 3 =
     FromPretrained (model_path default_args)"
  by (simp add: run_defs demo_defs build_deepseekcoder_instruction_eq strip_def isspace_def)

theorem main_setup_before_tokenizer_witness:
  "(\<exists>evs. trace (snd (main demo_externals default_args demo_world)) =
       trace demo_world @
       SetEnviron ''TOKENIZERS_PARALLELISM'' ''false'' # SetSeed (seed default_args) # evs)
   \<and> environ (snd (main demo_externals default_args demo_world)) ''TOKENIZERS_PARALLELISM''
        = Some ''false''
   \<and> rng_seed (snd (main demo_externals default_args demo_world)) = Some (seed default_args)
   \<and> is_tokenizer_event (trace (snd (main demo_externals default_args demo_world)) ! 3)
   \<and> length (trace demo_world) + 2 \<le> 3
   \<and> trace (snd (main demo_externals default_args demo_world)) ! length (trace demo_world)
        = SetEnviron ''TOKENIZERS_PARALLELISM'' ''false''
   \<and> trace (snd (main demo_externals default_args demo_world)) ! (length (trace demo_world) + 1)
        = SetSeed (seed default_args)"
proof -
  let ?w' = "snd (main demo_externals default_args demo_world)"
  have run: "main demo_externals default_args demo_world =
      (fst (main demo_externals default_args demo_world), ?w')"
    by simp
  have tok: "is_tokenizer_event (trace ?w' ! 3)"
    using demo_main_tokenizer_event by simp
  have pre: "length (trace demo_world) \<le> 3 \<and> 3 < length (trace ?w') \<and>
      is_tokenizer_event (trace ?w' ! 3)"
    using demo_main_tokenizer_event tok by (simp add: demo_world_def)
  from main_setup_before_tokenizer [OF run] pre tok show ?thesis
    by blast
qed

section \<open>The evaluate-only flow and the original file\<close>

lemma evaluation_only_Inr:
  assumes "evaluation_only X a w = (Inr u, w')"
  shows "\<exists>content examples recs.
     path_exists w (output_path a) \<and>
     files w (resolve w (output_path a)) = Some content \<and>
     load_lines (json_loads X) (file_lines content) = Inr examples \<and>
     list_all2 (\<lambda>ex rec. extract_generation_code X ex (language a) = Inr rec) examples recs \<and>
     files w' = (files w)(resolve w (processed_path_of a) \<mapsto> jsonl (json_dumps X) recs) \<and>
     trace w' = trace w @
       [Makedirs (temp_dir a), OpenRead (output_path a), OpenWrite (processed_path_of a),
        Evaluate (eval_call_of X (processed_path_of a) (temp_dir a) (language a))]"
proof -
  have s0: "path_exists w (output_path a)"
    using assms
    by (cases "path_exists w (output_path a)")
      (simp_all add: evaluation_only_def Let_def assert_exists_bind)
  then have "io_bind (makedirs (temp_dir a))
      (\<lambda>_. io_bind (load_examples X (output_path a))
        (\<lambda>output_examples.
          io_bind (io_lift (traverse (\<lambda>ex. extract_generation_code X ex (language a))
                     output_examples))
          (\<lambda>processed_examples.
            io_bind (write_examples X (processed_path_of a) processed_examples)
            (\<lambda>_. io_bind
                (run_evaluation X
                   (eval_call_of X (processed_path_of a) (temp_dir a) (language a)))
                (\<lambda>result. io_return ()))))) w = (Inr u, w')"
    using assms
    by (simp add: evaluation_only_def Let_def assert_exists_bind processed_path_of_def)
  then obtain examples recs res w1 w2 w3 w4 where
    s1: "makedirs (temp_dir a) w = (Inr (), w1)" and
    s2: "load_examples X (output_path a) w1 = (Inr examples, w2)" and
    s3: "traverse (\<lambda>ex. extract_generation_code X ex (language a)) examples = Inr recs"
        "w3 = w2" and
    s4: "write_examples X (processed_path_of a) recs w3 = (Inr (), w4)" and
    s5: "run_evaluation X (eval_call_of X (processed_path_of a) (temp_dir a) (language a)) w4
           = (Inr res, w')"
    unfolding io_bind_Inr io_return_Inr io_lift_Inr
    by auto
  from s2 obtain content where
    c: "files w1 (resolve w1 (output_path a)) = Some content"
       "load_lines (json_loads X) (file_lines content) = Inr examples"
       "w2 = w1\<lparr>trace := trace w1 @ [OpenRead (output_path a)]\<rparr>"
    by (auto simp: load_examples_Inr)
  show ?thesis
    apply (rule exI [of _ content], rule exI [of _ examples], rule exI [of _ recs])
    using s0 s1 c s3 s4 s5
    by (simp add: makedirs_Inr traverse_Inr write_examples_def write_text_Inr
        run_evaluation_Inr)
qed

text \<open>
  C10, amended: in every run of the evaluate-only flow, whatever its outcome, the only
  path opened for writing and the only path handed to the evaluator is the temporary
  directory joined with the base name of the output path; every file but the one that
  the joined path names keeps its content, so the original keeps its content whenever
  the output path and the joined path do not name the same file (however the two are
  spelled). In a run that completes, the output path was opened for reading, the
  processed records were written to the file the joined path names, and the joined path
  went to the evaluator.
\<close>

theorem evaluation_only_writes_processed_copy:
  assumes run: "evaluation_only X a w = (r, w')"
  shows "(\<exists>evs. trace w' = trace w @ evs \<and> list_all (touches_only (processed_path_of a)) evs)
     \<and> (\<forall>q. q \<noteq> resolve w (processed_path_of a) \<longrightarrow> files w' q = files w q)
     \<and> (resolve w (processed_path_of a) \<noteq> resolve w (output_path a) \<longrightarrow>
          files w' (resolve w (output_path a)) = files w (resolve w (output_path a)))
     \<and> (r = Inr () \<longrightarrow>
          (\<exists>content examples recs.
             files w (resolve w (output_path a)) = Some content \<and>
             load_lines (json_loads X) (file_lines content) = Inr examples \<and>
             list_all2 (\<lambda>ex rec. extract_generation_code X ex (language a) = Inr rec)
               examples recs \<and>
             files w' (resolve w (processed_path_of a)) = Some (jsonl (json_dumps X) recs) \<and>
             trace w' = trace w @
               [Makedirs (temp_dir a), OpenRead (output_path a),
                OpenWrite (processed_path_of a),
                Evaluate (eval_call_of X (processed_path_of a) (temp_dir a) (language a))]))"
proof -
  have w': "w' = snd (evaluation_only X a w)"
    using run by simp
  have events: "\<exists>evs. trace w' = trace w @ evs \<and> list_all (touches_only (processed_path_of a)) evs"
    unfolding w' by (rule effectsD(1) [OF effects_evaluation_only])
  have others: "\<forall>q. q \<noteq> resolve w (processed_path_of a) \<longrightarrow> files w' q = files w q"
    unfolding w' using effectsD(2) [OF effects_evaluation_only] by blast
  then have original: "resolve w (processed_path_of a) \<noteq> resolve w (output_path a) \<longrightarrow>
          files w' (resolve w (output_path a)) = files w (resolve w (output_path a))"
    by (simp add: eq_commute)
  have completed: "r = Inr () \<longrightarrow>
          (\<exists>content examples recs.
             files w (resolve w (output_path a)) = Some content \<and>
             load_lines (json_loads X) (file_lines content) = Inr examples \<and>
             list_all2 (\<lambda>ex rec. extract_generation_code X ex (language a) = Inr rec)
               examples recs \<and>
             files w' (resolve w (processed_path_of a)) = Some (jsonl (json_dumps X) recs) \<and>
             trace w' = trace w @
               [Makedirs (temp_dir a), OpenRead (output_path a),
                OpenWrite (processed_path_of a),
                Evaluate (eval_call_of X (processed_path_of a) (temp_dir a) (language a))])"
  proof
    assume "r = Inr ()"
    with run have "evaluation_only X a w = (Inr (), w')"
      by simp
    from evaluation_only_Inr [OF this] obtain content examples recs where
      "files w (resolve w (output_path a)) = Some content"
      "load_lines (json_loads X) (file_lines content) = Inr examples"
      "list_all2 (\<lambda>ex rec. extract_generation_code X ex (language a) = Inr rec) examples recs"
      "files w' = (files w)(resolve w (processed_path_of a) \<mapsto> jsonl (json_dumps X) recs)"
      "trace w' = trace w @
         [Makedirs (temp_dir a), OpenRead (output_path a), OpenWrite (processed_path_of a),
          Evaluate (eval_call_of X (processed_path_of a) (temp_dir a) (language a))]"
      by blast
    then show "\<exists>content examples recs.
             files w (resolve w (output_path a)) = Some content \<and>
             load_lines (json_loads X) (file_lines content) = Inr examples \<and>
             list_all2 (\<lambda>ex rec. extract_generation_code X ex (language a) = Inr rec)
               examples recs \<and>
             files w' (resolve w (processed_path_of a)) = Some (jsonl (json_dumps X) recs) \<and>
             trace w' = trace w @
               [Makedirs (temp_dir a), OpenRead (output_path a),
                OpenWrite (processed_path_of a),
                Evaluate (eval_call_of X (processed_path_of a) (temp_dir a) (language a))]"
      by auto
  qed
  from events others original completed show ?thesis
    by (simp only: simp_thms)
qed

lemma demo_evaluation_only:
  "fst (evaluation_only demo_externals default_args (demo_output_world ''outputs/qwen2-sft.json''))
     = Inr ()"
  by (simp add: run_defs demo_defs strip_def isspace_def)

lemma demo_processed_path:
  "processed_path_of default_args = ''tmp/qwen2-sft.json''"
  by (simp add: processed_path_of_def path_join_def basename_def default_args_def)

lemma demo_resolved_paths:
  "resolve (demo_output_world ''outputs/qwen2-sft.json'') (processed_path_of default_args)
     = ''/work/tmp/qwen2-sft.json''"
  "resolve (demo_output_world ''outputs/qwen2-sft.json'') (output_path default_args)
     = ''/work/outputs/qwen2-sft.json''"
  unfolding demo_processed_path
  by (simp_all add: demo_output_world_def default_args_def demo_resolve_def norm_step_def)

theorem evaluation_only_writes_processed_copy_witness:
  "fst (evaluation_only demo_externals default_args (demo_output_world ''outputs/qwen2-sft.json''))
     = Inr ()
   \<and> resolve (demo_output_world ''outputs/qwen2-sft.json'') (processed_path_of default_args)
       = ''/work/tmp/qwen2-sft.json''
   \<and> resolve (demo_output_world ''outputs/qwen2-sft.json'') (output_path default_args)
       = ''/work/outputs/qwen2-sft.json''
   \<and> (\<exists>evs. trace (snd (evaluation_only demo_externals default_args
                  (demo_output_world ''outputs/qwen2-sft.json''))) =
          trace (demo_output_world ''outputs/qwen2-sft.json'') @ evs \<and>
          list_all (touches_only (processed_path_of default_args)) evs)
   \<and> files (snd (evaluation_only demo_externals default_args
                  (demo_output_world ''outputs/qwen2-sft.json'')))
         (resolve (demo_output_world ''outputs/qwen2-sft.json'') (output_path default_args))
        = files (demo_output_world ''outputs/qwen2-sft.json'')
            (resolve (demo_output_world ''outputs/qwen2-sft.json'') (output_path default_args))
   \<and> (\<exists>content examples recs.
         files (demo_output_world ''outputs/qwen2-sft.json'')
             (resolve (demo_output_world ''outputs/qwen2-sft.json'') (output_path default_args))
           = Some content \<and>
         load_lines (json_loads demo_externals) (file_lines content) = Inr examples \<and>
         list_all2 (\<lambda>ex rec. extract_generation_code demo_externals ex (language default_args)
                       = Inr rec) examples recs \<and>
         files (snd (evaluation_only demo_externals default_args
                  (demo_output_world ''outputs/qwen2-sft.json'')))
             (resolve (demo_output_world ''outputs/qwen2-sft.json'')
                (processed_path_of default_args))
           = Some (jsonl (json_dumps demo_externals) recs) \<and>
         trace (snd (evaluation_only demo_externals default_args
                  (demo_output_world ''outputs/qwen2-sft.json''))) =
           trace (demo_output_world ''outputs/qwen2-sft.json'') @
             [Makedirs (temp_dir default_args), OpenRead (output_path default_args),
              OpenWrite (processed_path_of default_args),
              Evaluate (eval_call_of demo_externals (processed_path_of default_args)
                 (temp_dir default_args) (language default_args))])"
proof -
  let ?w = "demo_output_world ''outputs/qwen2-sft.json''"
  have run: "evaluation_only demo_externals default_args ?w =
      (fst (evaluation_only demo_externals default_args ?w),
       snd (evaluation_only demo_externals default_args ?w))"
    by simp
  have differ: "resolve ?w (processed_path_of default_args) \<noteq> resolve ?w (output_path default_args)"
    by (simp add: demo_resolved_paths)
  note t = evaluation_only_writes_processed_copy [OF run]
  note c1 = t [THEN conjunct1]
  note c3 = t [THEN conjunct2, THEN conjunct2, THEN conjunct1, THEN mp, OF differ]
  note c4 = t [THEN conjunct2, THEN conjunct2, THEN conjunct2, THEN mp, OF demo_evaluation_only]
  from demo_evaluation_only demo_resolved_paths c1 c3 c4 show ?thesis
    by (intro conjI)
qed

text \<open>
  C10, as stated, fails: when the output file lies in the temporary directory the
  joined path is the output path, and the original is overwritten. With
  \<^verbatim>\<open>--output_path tmp/out.jsonl\<close> and the default \<^verbatim>\<open>--temp_dir tmp\<close>, a file holding
  one record is replaced by the processed record, through an open for writing on
  \<^verbatim>\<open>tmp/out.jsonl\<close> itself.
\<close>

theorem evaluation_only_overwrites_original:
  "fst (evaluation_only demo_externals (default_args\<lparr>output_path := ''tmp/out.jsonl''\<rparr>)
          (demo_output_world ''tmp/out.jsonl'')) = Inr ()
   \<and> processed_path_of (default_args\<lparr>output_path := ''tmp/out.jsonl''\<rparr>) = ''tmp/out.jsonl''
   \<and> resolve (demo_output_world ''tmp/out.jsonl'') ''tmp/out.jsonl'' = ''/work/tmp/out.jsonl''
   \<and> files (demo_output_world ''tmp/out.jsonl'') ''/work/tmp/out.jsonl'' = Some ''{done 0}\<newline>''
   \<and> files (snd (evaluation_only demo_externals (default_args\<lparr>output_path := ''tmp/out.jsonl''\<rparr>)
          (demo_output_world ''tmp/out.jsonl''))) ''/work/tmp/out.jsonl''
       = Some (demo_dumps (JDict
           [(''task_id'', JStr ''HumanEval/0''), (''prompt'', JStr ''def one():\<newline>''),
            (''output'', JStr '' return 1 ''), (''generation'', JStr ''return 1'')]) @ ''\<newline>'')
   \<and> OpenWrite ''tmp/out.jsonl'' \<in> set (trace (snd (evaluation_only demo_externals
          (default_args\<lparr>output_path := ''tmp/out.jsonl''\<rparr>) (demo_output_world ''tmp/out.jsonl''))))"
  by (simp add: run_defs demo_defs processed_path_of_def strip_def isspace_def)

text \<open>
  The same happens when the two paths are spelled differently and name one file:
  with \<^verbatim>\<open>--temp_dir ./tmp\<close> the joined path is \<^verbatim>\<open>./tmp/out.jsonl\<close>, another text than
  \<^verbatim>\<open>tmp/out.jsonl\<close>, and the original is overwritten all the same.
\<close>

lemma evaluation_only_alias_overwritten:
  "fst (evaluation_only demo_externals
          (default_args\<lparr>output_path := ''tmp/out.jsonl'', temp_dir := ''./tmp''\<rparr>)
          (demo_output_world ''tmp/out.jsonl'')) = Inr ()
   \<and> processed_path_of (default_args\<lparr>output_path := ''tmp/out.jsonl'', temp_dir := ''./tmp''\<rparr>)
       = ''./tmp/out.jsonl''
   \<and> files (demo_output_world ''tmp/out.jsonl'') ''/work/tmp/out.jsonl'' = Some ''{done 0}\<newline>''
   \<and> files (snd (evaluation_only demo_externals
          (default_args\<lparr>output_path := ''tmp/out.jsonl'', temp_dir := ''./tmp''\<rparr>)
          (demo_output_world ''tmp/out.jsonl''))) ''/work/tmp/out.jsonl''
       = Some (demo_dumps (JDict
           [(''task_id'', JStr ''HumanEval/0''), (''prompt'', JStr ''def one():\<newline>''),
            (''output'', JStr '' return 1 ''), (''generation'', JStr ''return 1'')]) @ ''\<newline>'')"
  by (simp add: run_defs demo_defs processed_path_of_def strip_def isspace_def)

section \<open>The loader and the writer\<close>

lemma strip_empty_iff: "strip x = [] \<longleftrightarrow> blank x"
proof
  assume "blank x"
  then have d: "dropWhile isspace x = []"
    unfolding dropWhile_eq_Nil_conv by (simp add: blank_def list_all_iff)
  show "strip x = []"
    unfolding strip_def d by simp
next
  assume e: "strip x = []"
  show "blank x"
  proof (rule ccontr)
    assume "\<not> blank x"
    then have ne: "dropWhile isspace x \<noteq> []"
      by (simp add: blank_def list_all_iff)
    then have "\<not> isspace (hd (dropWhile isspace x))"
      by (rule hd_dropWhile)
    moreover have "hd (dropWhile isspace x) \<in> set (rev (dropWhile isspace x))"
      using ne by simp
    ultimately have "dropWhile isspace (rev (dropWhile isspace x)) \<noteq> []"
      by (auto simp: dropWhile_eq_Nil_conv)
    then show False
      using e by (simp add: strip_def)
  qed
qed

lemma load_lines_blank: "load_lines loads xs = traverse loads (filter (\<lambda>x. \<not> blank x) xs)"
  by (simp add: load_lines_def strip_empty_iff)

lemma load_lines_skip:
  "blank l \<Longrightarrow> load_lines loads (xs @ l # ys) = load_lines loads (xs @ ys)"
  by (simp add: load_lines_blank)

lemma universal_newlines_id: "CHR 0x0D \<notin> set s \<Longrightarrow> universal_newlines s = s"
  by (induction s) auto

lemma split_lines_line:
  "CHR 0x0A \<notin> set l \<Longrightarrow> split_lines (l @ CHR 0x0A # s) = (l @ [CHR 0x0A]) # split_lines s"
  by (induction l) auto

lemma split_lines_jsonl:
  "(\<forall>ex\<in>set exs. CHR 0x0A \<notin> set (dumps ex)) \<Longrightarrow>
     split_lines (jsonl dumps exs) = map (\<lambda>ex. dumps ex @ [CHR 0x0A]) exs"
  by (induction exs) (simp_all add: jsonl_def split_lines_line)

lemma no_cr_jsonl:
  "(\<forall>ex\<in>set exs. CHR 0x0D \<notin> set (dumps ex)) \<Longrightarrow> CHR 0x0D \<notin> set (jsonl dumps exs)"
  by (induction exs) (simp_all add: jsonl_def)

lemma file_lines_jsonl:
  assumes "\<forall>ex\<in>set exs. CHR 0x0A \<notin> set (dumps ex) \<and> CHR 0x0D \<notin> set (dumps ex)"
  shows "file_lines (jsonl dumps exs) = map (\<lambda>ex. dumps ex @ [CHR 0x0A]) exs"
proof -
  have "universal_newlines (jsonl dumps exs) = jsonl dumps exs"
    using assms by (intro universal_newlines_id no_cr_jsonl) blast
  moreover have "split_lines (jsonl dumps exs) = map (\<lambda>ex. dumps ex @ [CHR 0x0A]) exs"
    using assms by (intro split_lines_jsonl) blast
  ultimately show ?thesis
    by (simp add: file_lines_def)
qed

text \<open>
  C8: the loader returns the JSON parse of the lines of the file that are not blank
  (not made of whitespace only), in file order; a blank line adds no record, wherever
  it stands. When the destination can be opened for writing, the writer replaces its
  content by the records, each serialized and followed by a newline, whatever the file
  held before; as the serializer emits no raw line break, the file written has exactly
  one line per record. When the destination cannot be opened (for one, when its parent
  directory is missing, which raises \<^verbatim>\<open>FileNotFoundError\<close>) the writer raises and no
  file is changed.
\<close>

theorem loader_skips_blank_lines_writer_overwrites:
  "(files w (resolve w path) = Some content \<longrightarrow>
      fst (load_examples X path w) =
        traverse (json_loads X) (filter (\<lambda>x. \<not> blank x) (file_lines content)))
   \<and> (blank l \<longrightarrow> load_lines loads (xs @ l # ys) = load_lines loads (xs @ ys))
   \<and> (writable w dest \<longrightarrow>
      write_examples X dest exs w =
        (Inr (), w\<lparr>trace := trace w @ [OpenWrite dest],
                   files := (files w)(resolve w dest \<mapsto> jsonl (json_dumps X) exs)\<rparr>))
   \<and> (\<not> writable w dest \<longrightarrow>
      (\<exists>e. fst (write_examples X dest exs w) = Inl e) \<and>
      files (snd (write_examples X dest exs w)) = files w)
   \<and> (dest \<noteq> [] \<and> resolve w dest \<notin> dirs w \<and> resolve w dest \<notin> dom (files w) \<and>
      dirname (resolve w dest) \<notin> dom (files w) \<and> dirname (resolve w dest) \<notin> dirs w \<longrightarrow>
      fst (write_examples X dest exs w) = Inl (FileNotFoundError dest))
   \<and> ((\<forall>ex\<in>set exs. CHR 0x0A \<notin> set (json_dumps X ex) \<and> CHR 0x0D \<notin> set (json_dumps X ex)) \<longrightarrow>
      file_lines (jsonl (json_dumps X) exs) = map (\<lambda>ex. json_dumps X ex @ [CHR 0x0A]) exs)"
proof (intro conjI impI)
  assume "files w (resolve w path) = Some content"
  then show "fst (load_examples X path w) =
        traverse (json_loads X) (filter (\<lambda>x. \<not> blank x) (file_lines content))"
    by (simp add: load_examples_def io_bind_def read_text_def Let_def io_lift_def
        load_lines_blank)
next
  assume "blank l"
  then show "load_lines loads (xs @ l # ys) = load_lines loads (xs @ ys)"
    by (rule load_lines_skip)
next
  assume "writable w dest"
  then show "write_examples X dest exs w =
        (Inr (), w\<lparr>trace := trace w @ [OpenWrite dest],
                   files := (files w)(resolve w dest \<mapsto> jsonl (json_dumps X) exs)\<rparr>)"
    using write_text_Inr [of dest "jsonl (json_dumps X) exs" w "()"]
    by (simp add: write_examples_def)
next
  assume n: "\<not> writable w dest"
  from write_text_Inl [OF n]
  show "\<exists>e. fst (write_examples X dest exs w) = Inl e"
    by (simp add: write_examples_def)
  from write_text_Inl [OF n]
  show "files (snd (write_examples X dest exs w)) = files w"
    by (simp add: write_examples_def)
next
  assume "dest \<noteq> [] \<and> resolve w dest \<notin> dirs w \<and> resolve w dest \<notin> dom (files w) \<and>
      dirname (resolve w dest) \<notin> dom (files w) \<and> dirname (resolve w dest) \<notin> dirs w"
  then show "fst (write_examples X dest exs w) = Inl (FileNotFoundError dest)"
    by (simp add: write_examples_def write_text_def Let_def)
next
  assume "\<forall>ex\<in>set exs. CHR 0x0A \<notin> set (json_dumps X ex) \<and> CHR 0x0D \<notin> set (json_dumps X ex)"
  then show "file_lines (jsonl (json_dumps X) exs) = map (\<lambda>ex. json_dumps X ex @ [CHR 0x0A]) exs"
    by (rule file_lines_jsonl)
qed

theorem loader_skips_blank_lines_writer_overwrites_witness:
  "files demo_world (resolve demo_world ''data/humaneval-python.jsonl'')
     = Some ''{task 0}\<newline>  \<newline>{task 1}\<newline>\<newline>''
   \<and> fst (load_examples demo_externals ''data/humaneval-python.jsonl'' demo_world) =
       Inr [JDict [(''task_id'', JStr ''HumanEval/0''), (''prompt'', JStr ''def one():\<newline>'')],
            JDict [(''task_id'', JStr ''HumanEval/1''), (''prompt'', JStr ''  def two():\<newline>'')]]
   \<and> blank ''  \<newline>''
   \<and> load_lines demo_loads ([''{task 0}\<newline>''] @ ''  \<newline>'' # [''{task 1}\<newline>'']) =
       load_lines demo_loads ([''{task 0}\<newline>''] @ [''{task 1}\<newline>''])
   \<and> writable demo_world ''outputs/qwen2-sft.json''
   \<and> write_examples demo_externals ''outputs/qwen2-sft.json'' [JStr ''a\<newline>b'', JNull] demo_world =
       (Inr (), demo_world\<lparr>trace := trace demo_world @ [OpenWrite ''outputs/qwen2-sft.json''],
          files := (files demo_world)(resolve demo_world ''outputs/qwen2-sft.json'' \<mapsto>
            jsonl (json_dumps demo_externals) [JStr ''a\<newline>b'', JNull])\<rparr>)
   \<and> fst (write_examples demo_externals ''no/such/dir/out.jsonl'' [JStr ''a\<newline>b'', JNull]
            demo_world) = Inl (FileNotFoundError ''no/such/dir/out.jsonl'')
   \<and> files (snd (write_examples demo_externals ''no/such/dir/out.jsonl''
            [JStr ''a\<newline>b'', JNull] demo_world)) = files demo_world
   \<and> file_lines (jsonl (json_dumps demo_externals) [JStr ''a\<newline>b'', JNull]) =
       map (\<lambda>ex. json_dumps demo_externals ex @ [CHR 0x0A]) [JStr ''a\<newline>b'', JNull]"
proof -
  note t = loader_skips_blank_lines_writer_overwrites
    [where w = demo_world and path = "''data/humaneval-python.jsonl''"
       and content = "''{task 0}\<newline>  \<newline>{task 1}\<newline>\<newline>''" and X = demo_externals
       and l = "''  \<newline>''" and loads = demo_loads and xs = "[''{task 0}\<newline>'']"
       and ys = "[''{task 1}\<newline>'']" and dest = "''outputs/qwen2-sft.json''"
       and exs = "[JStr ''a\<newline>b'', JNull]"]
  note t' = loader_skips_blank_lines_writer_overwrites
    [where w = demo_world and X = demo_externals and dest = "''no/such/dir/out.jsonl''"
       and exs = "[JStr ''a\<newline>b'', JNull]"]
  have p1: "files demo_world (resolve demo_world ''data/humaneval-python.jsonl'')
      = Some ''{task 0}\<newline>  \<newline>{task 1}\<newline>\<newline>''"
    by (simp add: demo_world_def demo_resolve_def norm_step_def)
  have p2: "blank ''  \<newline>''"
    by (simp add: blank_def isspace_def)
  have p3: "writable demo_world ''outputs/qwen2-sft.json''"
    by (simp add: writable_def demo_world_def demo_resolve_def norm_step_def dirname_def)
  have p4: "\<forall>ex\<in>set [JStr ''a\<newline>b'', JNull].
      CHR 0x0A \<notin> set (json_dumps demo_externals ex) \<and> CHR 0x0D \<notin> set (json_dumps demo_externals ex)"
    by (simp add: demo_externals_def demo_quote_def demo_escape_def)
  have p5: "''no/such/dir/out.jsonl'' \<noteq> [] \<and>
      resolve demo_world ''no/such/dir/out.jsonl'' \<notin> dirs demo_world \<and>
      resolve demo_world ''no/such/dir/out.jsonl'' \<notin> dom (files demo_world) \<and>
      dirname (resolve demo_world ''no/such/dir/out.jsonl'') \<notin> dom (files demo_world) \<and>
      dirname (resolve demo_world ''no/such/dir/out.jsonl'') \<notin> dirs demo_world"
    by (simp add: demo_world_def demo_resolve_def norm_step_def dirname_def)
  have p6: "\<not> writable demo_world ''no/such/dir/out.jsonl''"
    by (simp add: writable_def demo_world_def demo_resolve_def norm_step_def dirname_def)
  have v: "traverse (json_loads demo_externals)
       (filter (\<lambda>x. \<not> blank x) (file_lines ''{task 0}\<newline>  \<newline>{task 1}\<newline>\<newline>'')) =
       Inr [JDict [(''task_id'', JStr ''HumanEval/0''), (''prompt'', JStr ''def one():\<newline>'')],
            JDict [(''task_id'', JStr ''HumanEval/1''), (''prompt'', JStr ''  def two():\<newline>'')]]"
    by (simp add: demo_defs file_lines_def blank_def isspace_def strip_def)
  note c1 = t [THEN conjunct1, THEN mp, OF p1, unfolded v]
  note c2 = t [THEN conjunct2, THEN conjunct1, THEN mp, OF p2]
  note c3 = t [THEN conjunct2, THEN conjunct2, THEN conjunct1, THEN mp, OF p3]
  note c4 = t' [THEN conjunct2, THEN conjunct2, THEN conjunct2, THEN conjunct1, THEN mp, OF p6,
    THEN conjunct2]
  note c5 = t' [THEN conjunct2, THEN conjunct2, THEN conjunct2, THEN conjunct2, THEN conjunct1,
    THEN mp, OF p5]
  note c6 = t [THEN conjunct2, THEN conjunct2, THEN conjunct2, THEN conjunct2, THEN conjunct2,
    THEN mp, OF p4]
  from p1 c1 p2 c2 p3 c3 c5 c4 c6 show ?thesis
    by (intro conjI)
qed

section \<open>Extraction of records already extracted\<close>

lemma extract_spec_Inr:
  "extract_generation_code_spec locate ex lang = Inr r \<longleftrightarrow>
     (\<exists>kvs stub raw. ex = JDict kvs \<and>
        map_of kvs ''prompt'' = Some (JStr stub) \<and>
        map_of kvs ''output'' = Some (JStr raw) \<and>
        r = JDict (AList.update ''code'' (JStr (locate lang stub raw)) kvs))"
proof (cases ex)
  case (JDict kvs)
  show ?thesis
  proof (cases "map_of kvs ''prompt''")
    case None
    then show ?thesis
      using JDict by (simp add: extract_generation_code_spec_def)
  next
    case (Some p)
    note prompt = this
    show ?thesis
    proof (cases "map_of kvs ''output''")
      case None
      then show ?thesis
        using JDict prompt by (cases p) (simp_all add: extract_generation_code_spec_def)
    next
      case (Some out)
      then show ?thesis
        using JDict prompt
        by (cases p; cases out) (auto simp: extract_generation_code_spec_def)
    qed
  qed
qed (simp_all add: extract_generation_code_spec_def)

lemma extract_spec_idem:
  assumes "extract_generation_code_spec locate ex lang = Inr r"
  shows "extract_generation_code_spec locate r lang = Inr r"
proof -
  from assms obtain kvs stub raw where
    ex: "ex = JDict kvs" and
    p: "map_of kvs ''prompt'' = Some (JStr stub)" and
    out: "map_of kvs ''output'' = Some (JStr raw)" and
    r: "r = JDict (AList.update ''code'' (JStr (locate lang stub raw)) kvs)"
    unfolding extract_spec_Inr by blast
  let ?kvs = "AList.update ''code'' (JStr (locate lang stub raw)) kvs"
  have p': "map_of ?kvs ''prompt'' = Some (JStr stub)"
    using p by (simp add: update_conv')
  have out': "map_of ?kvs ''output'' = Some (JStr raw)"
    using out by (simp add: update_conv')
  have "r = JDict (AList.update ''code'' (JStr (locate lang stub raw)) ?kvs)"
    unfolding r by simp
  with r p' out' show ?thesis
    unfolding extract_spec_Inr by blast
qed

lemma extract_spec_idem_list:
  assumes "list_all2 (\<lambda>ex r. extract_generation_code_spec locate ex lang = Inr r) exs rs"
  shows "traverse (\<lambda>r. extract_generation_code_spec locate r lang) rs = Inr rs"
  using assms
proof (induction exs rs rule: list_all2_induct)
  case Nil
  then show ?case by simp
next
  case (Cons ex exs r rs)
  then show ?case
    by (simp add: extract_spec_idem)
qed

text \<open>
  C5: for the extractor of the contract, a record that extraction returned is returned
  unchanged by another extraction, its \<^verbatim>\<open>code\<close> field included, since the code is
  found again from the same \<^verbatim>\<open>output\<close> and stub; so a list of extracted records is
  processed to itself, and a run of the evaluate-only flow on an output file whose
  records are already extracted writes those same records as the processed records.
\<close>

theorem extraction_idempotent_on_extracted_records:
  "(extract_generation_code_spec locate ex lang = Inr r \<longrightarrow>
      extract_generation_code_spec locate r lang = Inr r)
   \<and> (list_all2 (\<lambda>ex r. extract_generation_code_spec locate ex lang = Inr r) exs rs \<longrightarrow>
      traverse (\<lambda>r. extract_generation_code_spec locate r lang) rs = Inr rs)
   \<and> (extract_generation_code X = extract_generation_code_spec locate \<and>
      evaluation_only X a w = (Inr (), w') \<and>
      files w (resolve w (output_path a)) = Some content \<and>
      load_lines (json_loads X) (file_lines content) = Inr rs' \<and>
      list_all2 (\<lambda>ex r. extract_generation_code_spec locate ex (language a) = Inr r) exs' rs' \<longrightarrow>
      files w' (resolve w (processed_path_of a)) = Some (jsonl (json_dumps X) rs'))"
proof (intro conjI impI)
  assume "extract_generation_code_spec locate ex lang = Inr r"
  then show "extract_generation_code_spec locate r lang = Inr r"
    by (rule extract_spec_idem)
next
  assume "list_all2 (\<lambda>ex r. extract_generation_code_spec locate ex lang = Inr r) exs rs"
  then show "traverse (\<lambda>r. extract_generation_code_spec locate r lang) rs = Inr rs"
    by (rule extract_spec_idem_list)
next
  assume h: "extract_generation_code X = extract_generation_code_spec locate \<and>
      evaluation_only X a w = (Inr (), w') \<and>
      files w (resolve w (output_path a)) = Some content \<and>
      load_lines (json_loads X) (file_lines content) = Inr rs' \<and>
      list_all2 (\<lambda>ex r. extract_generation_code_spec locate ex (language a) = Inr r) exs' rs'"
  then have run: "evaluation_only X a w = (Inr (), w')"
    by simp
  from evaluation_only_Inr [OF run] obtain content' examples recs where
    c: "files w (resolve w (output_path a)) = Some content'" and
    l: "load_lines (json_loads X) (file_lines content') = Inr examples" and
    e: "list_all2 (\<lambda>ex rec. extract_generation_code X ex (language a) = Inr rec) examples recs" and
    f: "files w' = (files w)(resolve w (processed_path_of a) \<mapsto> jsonl (json_dumps X) recs)"
    by blast
  have "content' = content"
    using c h by simp
  then have "examples = rs'"
    using l h by simp
  then have "traverse (\<lambda>r. extract_generation_code_spec locate r (language a)) rs' = Inr recs"
    using e h by (simp add: traverse_Inr)
  moreover have "traverse (\<lambda>r. extract_generation_code_spec locate r (language a)) rs' = Inr rs'"
    using h by (intro extract_spec_idem_list [of locate "language a" exs' rs']) simp
  ultimately have "recs = rs'"
    by simp
  then show "files w' (resolve w (processed_path_of a)) = Some (jsonl (json_dumps X) rs')"
    using f by simp
qed


lemma demo_extract_record:
  "extract_generation_code_spec demo_locate demo_record ''python'' = Inr demo_extracted"
  by (simp add: extract_generation_code_spec_def demo_locate_def demo_record_def
      demo_extracted_def strip_def isspace_def)

lemma demo_clean_run:
  "fst (evaluation_only demo_spec_externals default_args demo_clean_world) = Inr ()"
  by (simp add: run_defs demo_defs demo_spec_externals_def demo_clean_world_def
      extract_generation_code_spec_def demo_locate_def strip_def isspace_def)

lemma demo_clean_load:
  "load_lines (json_loads demo_spec_externals) (file_lines ''{clean 0}\<newline>'') =
     Inr [demo_extracted]"
  by (simp add: load_lines_def file_lines_def demo_defs demo_spec_externals_def
      demo_extracted_def strip_def isspace_def)

theorem extraction_idempotent_on_extracted_records_witness:
  "extract_generation_code_spec demo_locate demo_record ''python'' = Inr demo_extracted
   \<and> extract_generation_code_spec demo_locate demo_extracted ''python'' = Inr demo_extracted
   \<and> traverse (\<lambda>r. extract_generation_code_spec demo_locate r ''python'') [demo_extracted]
       = Inr [demo_extracted]
   \<and> fst (evaluation_only demo_spec_externals default_args demo_clean_world) = Inr ()
   \<and> files (snd (evaluation_only demo_spec_externals default_args demo_clean_world))
         (resolve demo_clean_world (processed_path_of default_args))
       = Some (jsonl (json_dumps demo_spec_externals) [demo_extracted])"
proof -
  let ?w' = "snd (evaluation_only demo_spec_externals default_args demo_clean_world)"
  note t = extraction_idempotent_on_extracted_records
    [where locate = demo_locate and ex = demo_record and lang = "''python''"
       and r = demo_extracted and exs = "[demo_record]" and rs = "[demo_extracted]"
       and X = demo_spec_externals and a = default_args and w = demo_clean_world
       and w' = ?w' and content = "''{clean 0}\<newline>''"
       and rs' = "[demo_extracted]" and exs' = "[demo_record]"]
  have l: "list_all2 (\<lambda>ex r. extract_generation_code_spec demo_locate ex ''python'' = Inr r)
      [demo_record] [demo_extracted]"
    by (simp add: demo_extract_record)
  have lang: "language default_args = ''python''"
    by (simp add: default_args_def)
  have x: "extract_generation_code demo_spec_externals = extract_generation_code_spec demo_locate"
    by (simp add: demo_spec_externals_def)
  have run: "evaluation_only demo_spec_externals default_args demo_clean_world = (Inr (), ?w')"
    using demo_clean_run by (metis prod.collapse)
  have c: "files demo_clean_world (resolve demo_clean_world (output_path default_args))
      = Some ''{clean 0}\<newline>''"
    by (simp add: demo_clean_world_def default_args_def demo_resolve_def norm_step_def)
  have pre: "extract_generation_code demo_spec_externals = extract_generation_code_spec demo_locate \<and>
      evaluation_only demo_spec_externals default_args demo_clean_world = (Inr (), ?w') \<and>
      files demo_clean_world (resolve demo_clean_world (output_path default_args))
        = Some ''{clean 0}\<newline>'' \<and>
      load_lines (json_loads demo_spec_externals) (file_lines ''{clean 0}\<newline>'') =
        Inr [demo_extracted] \<and>
      list_all2 (\<lambda>ex r. extract_generation_code_spec demo_locate ex (language default_args) = Inr r)
        [demo_record] [demo_extracted]"
    using x run c demo_clean_load l by (simp only: lang simp_thms)
  note c1 = t [THEN conjunct1, THEN mp, OF demo_extract_record]
  note c2 = t [THEN conjunct2, THEN conjunct1, THEN mp, OF l]
  note c3 = t [THEN conjunct2, THEN conjunct2, THEN mp, OF pre]
  from demo_extract_record c1 c2 demo_clean_run c3 show ?thesis
    by (simp only: simp_thms)
qed

end
